(* ===== verification/Klede_Prelude.thy ===== *)
theory Klede_Prelude
  imports Main "HOL-Library.Sublist" "HOL-Library.Extended_Nat"
begin

text \<open>
  Shared vocabulary of the development: the values the TypeScript sources pass between
  \<^verbatim>\<open>client/src/lib/queryClient.ts\<close> and \<^verbatim>\<open>client/src/components/WaitlistCard.tsx\<close>,
  and the few operations of the JavaScript runtime that those sources rely on.

  \<^item> JavaScript strings are modelled as \<^typ>\<open>string\<close> (lists of \<^typ>\<open>char\<close>). The sources
    inspect strings only through \<^verbatim>\<open>startsWith\<close> on the ASCII literals \<^verbatim>\<open>'/'\<close> and
    \<^verbatim>\<open>'/api/'\<close> and through \<^verbatim>\<open>substring(4)\<close> after such a test, so the result does not
    depend on how non-ASCII text is cut into units; \<^verbatim>\<open>startsWith\<close> is \<^const>\<open>prefix\<close> of
    \<open>HOL-Library.Sublist\<close> and \<^verbatim>\<open>substring(n)\<close> is \<^const>\<open>drop\<close>.
  \<^item> \<open>js_or\<close> is the operator \<^verbatim>\<open>||\<close> on strings (the empty string is the only falsy one).
  \<^item> \<open>decimal\<close> is the text a template literal produces for a non-negative integer such
    as an HTTP status; \<open>parse_decimal\<close> is its inverse and only serves the specification.
  \<^item> \<open>error\<close> is the one failure type: every exception of the sources is a value of it,
    and a computation that may throw returns \<open>error + 'a\<close> with \<open>Inl\<close> for the throw.
  \<^item> \<open>console\<close> is a line written to the browser console; functions that log return
    the lines they write, in order.

  The collections \<open>klede_defs\<close> and \<open>klede_splits\<close> hold the unfolding and case-split
  rules that the component theories add to, so that one \<open>simp add: klede_defs\<close> evaluates a
  handler on a concrete input.
\<close>

named_theorems klede_defs "definitions of the model's operations, unfolded to evaluate them"
named_theorems klede_splits "case splits of the model's datatypes"

section \<open>Strings of the JavaScript runtime\<close>

definition js_or :: "string \<Rightarrow> string \<Rightarrow> string" where
  "js_or a b = (if a = [] then b else a)"

definition digit_char :: "nat \<Rightarrow> char" where
  "digit_char d = ''0123456789'' ! d"

fun decimal :: "nat \<Rightarrow> string" where
  "decimal n = (if n < 10 then [digit_char n] else decimal (n div 10) @ [digit_char (n mod 10)])"

declare decimal.simps [simp del]

definition is_digit :: "char \<Rightarrow> bool" where
  "is_digit c \<longleftrightarrow> c \<in> set ''0123456789''"

definition digit_val :: "char \<Rightarrow> nat" where
  "digit_val c = of_char c - 48"

definition parse_decimal :: "string \<Rightarrow> nat" where
  "parse_decimal s = foldl (\<lambda>a c. 10 * a + digit_val c) 0 s"

section \<open>Failures and console output\<close>

datatype error = Error string | TypeError string | SyntaxError string

fun message :: "error \<Rightarrow> string" where
  "message (Error m) = m"
| "message (TypeError m) = m"
| "message (SyntaxError m) = m"

type_synonym 'a result = "error + 'a"

datatype 'd log_arg = Txt string | Data 'd | Exn error

datatype 'd console = ConsoleLog "'d log_arg list" | ConsoleError "'d log_arg list"

fun is_console_error :: "'d console \<Rightarrow> bool" where
  "is_console_error (ConsoleError _) = True"
| "is_console_error (ConsoleLog _) = False"

lemmas [klede_defs] = Let_def js_or_def digit_char_def is_digit_def digit_val_def parse_decimal_def
lemmas [klede_splits] = if_splits option.splits sum.splits

section \<open>Facts about \<open>js_or\<close>\<close>

lemma js_or_empty [simp]: "js_or [] b = b"
  by (simp add: js_or_def)

lemma js_or_nonempty [simp]: "a \<noteq> [] \<Longrightarrow> js_or a b = a"
  by (simp add: js_or_def)

lemma js_or_eq_Nil_iff [simp]: "js_or a b = [] \<longleftrightarrow> a = [] \<and> b = []"
  by (simp add: js_or_def)

lemma js_or_idem [simp]: "js_or a a = a"
  by (simp add: js_or_def)

lemma js_or_assoc: "js_or (js_or a b) c = js_or a (js_or b c)"
  by (simp add: js_or_def)

section \<open>Facts about decimal numerals\<close>

lemma digit_char_less_10:
  assumes "d < 10"
  shows "is_digit (digit_char d)" and "digit_val (digit_char d) = d"
proof -
  from assms have "d \<in> {0, 1, 2, 3, 4, 5, 6, 7, 8, 9}" by auto
  then show "is_digit (digit_char d)" and "digit_val (digit_char d) = d"
    by (auto simp: is_digit_def digit_val_def digit_char_def)
qed

lemma decimal_small [simp]: "n < 10 \<Longrightarrow> decimal n = [digit_char n]"
  by (subst decimal.simps) simp

lemma decimal_large: "10 \<le> n \<Longrightarrow> decimal n = decimal (n div 10) @ [digit_char (n mod 10)]"
  by (subst decimal.simps) simp

lemmas [klede_defs] = decimal_large

lemma decimal_nonempty [simp]: "decimal n \<noteq> []"
  by (subst decimal.simps) simp

lemma decimal_digits: "c \<in> set (decimal n) \<Longrightarrow> is_digit c"
proof (induction n arbitrary: c rule: decimal.induct)
  case (1 n)
  show ?case
  proof (cases "n < 10")
    case True
    with "1.prems" show ?thesis by (simp add: digit_char_less_10)
  next
    case False
    then have "decimal n = decimal (n div 10) @ [digit_char (n mod 10)]"
      by (simp add: decimal_large)
    with "1.prems" "1.IH" [OF False] show ?thesis
      by (auto simp: digit_char_less_10)
  qed
qed

lemma parse_decimal_snoc [simp]:
  "parse_decimal (s @ [c]) = 10 * parse_decimal s + digit_val c"
  by (simp add: parse_decimal_def)

lemma parse_decimal_single [simp]: "parse_decimal [c] = digit_val c"
  by (simp add: parse_decimal_def)

lemma parse_decimal_decimal [simp]: "parse_decimal (decimal n) = n"
proof (induction n rule: decimal.induct)
  case (1 n)
  show ?case
  proof (cases "n < 10")
    case True
    then show ?thesis by (simp add: digit_char_less_10)
  next
    case False
    with "1.IH" show ?thesis by (simp add: decimal_large digit_char_less_10)
  qed
qed

lemma decimal_inject [simp]: "decimal m = decimal n \<longleftrightarrow> m = n"
proof
  assume "decimal m = decimal n"
  then have "parse_decimal (decimal m) = parse_decimal (decimal n)" by simp
  then show "m = n" by simp
qed simp

lemma not_digit_notin_decimal: "\<not> is_digit c \<Longrightarrow> c \<notin> set (decimal n)"
  using decimal_digits by blast

lemma colon_notin_decimal [simp]: "CHR '':'' \<notin> set (decimal n)"
  by (rule not_digit_notin_decimal) (simp add: is_digit_def)

lemma takeWhile_decimal_colon [simp]:
  "takeWhile (\<lambda>c. c \<noteq> CHR '':'') (decimal n @ CHR '':'' # rest) = decimal n"
proof -
  have "c \<noteq> CHR '':''" if "c \<in> set (decimal n)" for c
    using that colon_notin_decimal by metis
  then show ?thesis by (simp add: takeWhile_append2)
qed

end
