(* ===== verification/EndpointResolver.thy ===== *)
theory EndpointResolver
  imports Klede_Prelude
begin

text \<open>
  The endpoint resolver of \<^verbatim>\<open>client/src/lib/queryClient.ts\<close>: the function
  \<^verbatim>\<open>getApiUrl\<close> (lines 17 to 39), which maps a logical path to the URL that is fetched.

  \<^item> \<open>runtime_env\<close> holds what the function reads from its surroundings: whether
    \<^verbatim>\<open>window\<close> exists, the build flag \<^verbatim>\<open>import.meta.env.PROD\<close>, and
    \<^verbatim>\<open>window.location.origin\<close>.
  \<^item> \<open>normalizedPath\<close>, \<open>hosted\<close>, \<open>getApiUrl\<close> follow lines 19, 22 and 17 to 39;
    \<open>getApiUrl_console\<close> is the list of lines the same call writes to the console.
  \<^item> \<open>deployment\<close> and \<open>resolves\<close> state the contract of the resolver as a relation that
    mentions neither \<open>normalizedPath\<close> nor \<^verbatim>\<open>substring\<close>; the lemmas of the last
    section show that \<open>getApiUrl\<close> computes exactly this relation.
\<close>

section \<open>The runtime environment and the resolver\<close>

record runtime_env =
  has_window :: bool
  is_prod :: bool
  origin :: string

definition normalizedPath :: "string \<Rightarrow> string" where
  "normalizedPath path = (if prefix ''/'' path then path else ''/'' @ path)"

definition hosted :: "'a runtime_env_scheme \<Rightarrow> bool" where
  "hosted env \<longleftrightarrow> has_window env \<and> is_prod env"

definition getApiUrl :: "'a runtime_env_scheme \<Rightarrow> string \<Rightarrow> string" where
  "getApiUrl env path =
     (let p = normalizedPath path in
      if hosted env then
        (let baseUrl = origin env in
         if prefix ''/api/'' p
         then baseUrl @ ''/.netlify/functions/api-standalone'' @ drop 4 p
         else baseUrl @ p)
      else p)"

definition getApiUrl_console :: "'a runtime_env_scheme \<Rightarrow> string \<Rightarrow> 'd console list" where
  "getApiUrl_console env path =
     (let p = normalizedPath path in
      if hosted env then
        (if prefix ''/api/'' p
         then [ConsoleLog [Txt (''Redirecting '' @ p @ '' to Netlify function'')]]
         else [])
      else [ConsoleLog [Txt (''Using direct path for development: '' @ p)]])"

section \<open>The contract: deployments and the resolution relation\<close>

datatype deployment = Direct | Hosted string

definition deployment_of :: "'a runtime_env_scheme \<Rightarrow> deployment" where
  "deployment_of env = (if hosted env then Hosted (origin env) else Direct)"

definition api_path :: "string \<Rightarrow> bool" where
  "api_path path \<longleftrightarrow> prefix ''/api/'' (normalizedPath path)"

inductive resolves :: "deployment \<Rightarrow> string \<Rightarrow> string \<Rightarrow> bool" where
  direct: "prefix ''/'' p \<Longrightarrow> resolves Direct p p"
| hosted_api: "prefix ''/api/'' p \<Longrightarrow>
    resolves (Hosted b) p (b @ ''/.netlify/functions/api-standalone/'' @ drop 5 p)"
| hosted_page: "prefix ''/'' p \<Longrightarrow> \<not> prefix ''/api/'' p \<Longrightarrow> resolves (Hosted b) p (b @ p)"
| normalize: "\<not> prefix ''/'' p \<Longrightarrow> resolves d (CHR ''/'' # p) u \<Longrightarrow> resolves d p u"

code_pred (modes: i \<Rightarrow> i \<Rightarrow> o \<Rightarrow> bool, i \<Rightarrow> i \<Rightarrow> i \<Rightarrow> bool) resolves .

inductive_cases resolves_DirectE: "resolves Direct p u"
inductive_cases resolves_HostedE: "resolves (Hosted b) p u"

lemmas [klede_defs] = normalizedPath_def hosted_def getApiUrl_def getApiUrl_console_def
  deployment_of_def api_path_def

section \<open>Normalisation\<close>

lemma prefix_slash_iff: "prefix ''/'' p \<longleftrightarrow> (\<exists>r. p = CHR ''/'' # r)"
  by (cases p) auto

lemma prefix_api_iff: "prefix ''/api/'' p \<longleftrightarrow> (\<exists>r. p = ''/api/'' @ r)"
  by (auto simp: prefix_def)

lemma prefix_api_slash: "prefix ''/api/'' p \<Longrightarrow> prefix ''/'' p"
  by (auto simp: prefix_def)

lemma normalizedPath_slash [simp]: "prefix ''/'' (normalizedPath p)"
  by (simp add: normalizedPath_def)

lemma normalizedPath_id [simp]: "prefix ''/'' p \<Longrightarrow> normalizedPath p = p"
  by (simp add: normalizedPath_def)

lemma normalizedPath_add [simp]: "\<not> prefix ''/'' p \<Longrightarrow> normalizedPath p = CHR ''/'' # p"
  by (simp add: normalizedPath_def)

lemma normalizedPath_idem [simp]: "normalizedPath (normalizedPath p) = normalizedPath p"
  by simp

lemma normalizedPath_nonempty [simp]: "normalizedPath p \<noteq> []"
  by (simp add: normalizedPath_def) auto

lemma api_path_normalizedPath [simp]: "api_path (normalizedPath p) = api_path p"
  by (simp add: api_path_def)

section \<open>Behaviour of \<open>getApiUrl\<close> on every branch\<close>

lemma getApiUrl_direct: "\<not> hosted env \<Longrightarrow> getApiUrl env p = normalizedPath p"
  by (simp add: getApiUrl_def)

lemma getApiUrl_hosted_api:
  "hosted env \<Longrightarrow> api_path p \<Longrightarrow>
   getApiUrl env p = origin env @ ''/.netlify/functions/api-standalone'' @ drop 4 (normalizedPath p)"
  by (simp add: getApiUrl_def api_path_def)

lemma getApiUrl_hosted_page:
  "hosted env \<Longrightarrow> \<not> api_path p \<Longrightarrow> getApiUrl env p = origin env @ normalizedPath p"
  by (simp add: getApiUrl_def api_path_def)

lemmas getApiUrl_branches = getApiUrl_direct getApiUrl_hosted_api getApiUrl_hosted_page

lemma getApiUrl_cases [case_names direct hosted_api hosted_page]:
  assumes "\<not> hosted env \<Longrightarrow> P (normalizedPath p)"
    and "hosted env \<Longrightarrow> api_path p \<Longrightarrow>
      P (origin env @ ''/.netlify/functions/api-standalone'' @ drop 4 (normalizedPath p))"
    and "hosted env \<Longrightarrow> \<not> api_path p \<Longrightarrow> P (origin env @ normalizedPath p)"
  shows "P (getApiUrl env p)"
  using assms by (cases "hosted env"; cases "api_path p") (simp_all add: getApiUrl_branches)

lemma drop4_api: "prefix ''/api/'' p \<Longrightarrow> ''/api'' @ drop 4 p = p"
  by (auto simp: prefix_def)

lemma drop4_drop5: "prefix ''/api/'' p \<Longrightarrow> drop 4 p = CHR ''/'' # drop 5 p"
  by (auto simp: prefix_def)


section \<open>The resolver computes the contract\<close>

lemma resolves_getApiUrl: "resolves (deployment_of env) p (getApiUrl env p)"
proof -
  have norm: "resolves d p u" if "resolves d (normalizedPath p) u" for d u
    using that by (cases "prefix ''/'' p") (auto intro: resolves.normalize)
  show ?thesis
  proof (induction env p rule: getApiUrl_cases)
    case direct
    then show ?case by (auto simp: deployment_of_def intro!: norm resolves.direct)
  next
    case hosted_api
    then have api: "prefix ''/api/'' (normalizedPath p)"
      by (simp add: api_path_def)
    then have "resolves (Hosted (origin env)) (normalizedPath p)
        (origin env @ ''/.netlify/functions/api-standalone/'' @ drop 5 (normalizedPath p))"
      by (rule resolves.hosted_api)
    with hosted_api api show ?case
      by (auto simp: deployment_of_def drop4_drop5 intro!: norm)
  next
    case hosted_page
    then show ?case
      by (auto simp: deployment_of_def api_path_def intro!: norm resolves.hosted_page)
  qed
qed

lemma resolves_unique: "resolves d p u \<Longrightarrow> resolves d p u' \<Longrightarrow> u = u'"
proof (induction arbitrary: u' rule: resolves.induct)
  case (direct p)
  from direct(2,1) show ?case by cases auto
next
  case (hosted_api p b)
  from hosted_api(2,1) show ?case by cases (auto dest: prefix_api_slash)
next
  case (hosted_page p b)
  from hosted_page(3,1,2) show ?case by cases auto
next
  case (normalize p d u)
  from normalize(4,1) have "resolves d (CHR ''/'' # p) u'"
    by cases (auto dest: prefix_api_slash)
  then show ?case by (rule normalize.IH)
qed

text \<open>
  C3 (refinement). The resolver implements its contract and the contract determines it:
  for every environment and every logical path, the URL returned by \<open>getApiUrl\<close> is the
  one and only URL that the resolution relation of the deployment allows.
\<close>

theorem getApiUrl_refines_resolves:
  "resolves (deployment_of env) path u \<longleftrightarrow> u = getApiUrl env path"
  using resolves_getApiUrl resolves_unique by blast

theorem getApiUrl_refines_resolves_witness:
  "resolves (Hosted ''https://klede.app'') ''api/waitlist''
     ''https://klede.app/.netlify/functions/api-standalone/waitlist''"
  using getApiUrl_refines_resolves
    [of "\<lparr>has_window = True, is_prod = True, origin = ''https://klede.app''\<rparr>"
        "''api/waitlist''" "''https://klede.app/.netlify/functions/api-standalone/waitlist''"]
  by (simp add: klede_defs)

section \<open>The testable properties of the resolver\<close>

lemma getApiUrl_normalizedPath [simp]: "getApiUrl env (normalizedPath p) = getApiUrl env p"
  by (simp add: getApiUrl_def)

text \<open>
  C23 (functional). A logical path that lacks the leading separator resolves to the same
  URL as the path with the separator put in front of it.
\<close>

theorem getApiUrl_leading_separator:
  "\<not> prefix ''/'' p \<Longrightarrow> getApiUrl env p = getApiUrl env (''/'' @ p)"
  using getApiUrl_normalizedPath [of env p] by simp

theorem getApiUrl_leading_separator_witness:
  "\<not> prefix ''/'' ''api/waitlist'' \<and>
   getApiUrl \<lparr>has_window = True, is_prod = True, origin = ''https://klede.app''\<rparr> ''api/waitlist'' =
   getApiUrl \<lparr>has_window = True, is_prod = True, origin = ''https://klede.app''\<rparr> ''/api/waitlist''"
  using getApiUrl_leading_separator
    [of "''api/waitlist''" "\<lparr>has_window = True, is_prod = True, origin = ''https://klede.app''\<rparr>"]
  by simp

text \<open>
  C22 (functional). In a hosted production runtime a path under \<^verbatim>\<open>/api/\<close> is routed to the
  serverless function: the URL is the origin, the fixed function route, and the rest of the
  path after \<^verbatim>\<open>/api/\<close>, unchanged.
\<close>

theorem getApiUrl_hosted_rewrite:
  "hosted env \<Longrightarrow>
   getApiUrl env (''/api/'' @ r) = origin env @ ''/.netlify/functions/api-standalone/'' @ r"
  by (simp add: getApiUrl_def normalizedPath_def)

theorem getApiUrl_hosted_rewrite_witness:
  "hosted \<lparr>has_window = True, is_prod = True, origin = ''https://klede.app''\<rparr> \<and>
   getApiUrl \<lparr>has_window = True, is_prod = True, origin = ''https://klede.app''\<rparr> ''/api/waitlist''
     = ''https://klede.app/.netlify/functions/api-standalone/waitlist''"
  using getApiUrl_hosted_rewrite
    [of "\<lparr>has_window = True, is_prod = True, origin = ''https://klede.app''\<rparr>" "''waitlist''"]
  by (simp add: hosted_def)

text \<open>
  C24 (functional). Outside a hosted production runtime (no \<^verbatim>\<open>window\<close>, or a development
  build) the resolver returns the normalised path itself, relative to the current origin:
  a path with its separator is returned unchanged and no origin is put in front of it.
\<close>

theorem getApiUrl_direct_mode:
  "\<not> hosted env \<Longrightarrow> prefix ''/'' p \<Longrightarrow> getApiUrl env p = p"
  by (simp add: getApiUrl_direct)

theorem getApiUrl_direct_mode_witness:
  "\<not> hosted \<lparr>has_window = True, is_prod = False, origin = ''http://localhost:5000''\<rparr> \<and>
   prefix ''/'' ''/api/waitlist'' \<and>
   getApiUrl \<lparr>has_window = True, is_prod = False, origin = ''http://localhost:5000''\<rparr>
     ''/api/waitlist'' = ''/api/waitlist''"
  using getApiUrl_direct_mode
    [of "\<lparr>has_window = True, is_prod = False, origin = ''http://localhost:5000''\<rparr>"
        "''/api/waitlist''"]
  by (simp add: hosted_def)

lemma api_path_drop4:
  assumes "api_path p" and "api_path q"
    and "drop 4 (normalizedPath p) = drop 4 (normalizedPath q)"
  shows "normalizedPath p = normalizedPath q"
proof -
  from assms(1,2) have "''/api'' @ drop 4 (normalizedPath p) = normalizedPath p"
    and "''/api'' @ drop 4 (normalizedPath q) = normalizedPath q"
    by (simp_all only: api_path_def drop4_api)
  with assms(3) show ?thesis by metis
qed

text \<open>
  C25 (safety). Two logical paths of the same kind (both under \<^verbatim>\<open>/api/\<close>, or both
  outside it) that resolve to the same URL are the same path up to the leading separator:
  within a kind the resolver never merges two resources.
\<close>

theorem getApiUrl_inj:
  assumes "api_path p = api_path q" and "getApiUrl env p = getApiUrl env q"
  shows "normalizedPath p = normalizedPath q"
proof (cases "hosted env")
  case False
  with assms(2) show ?thesis by (simp add: getApiUrl_direct)
next
  case True
  show ?thesis
  proof (cases "api_path p")
    case True
    with assms \<open>hosted env\<close> show ?thesis
      by (auto simp: getApiUrl_hosted_api intro: api_path_drop4)
  next
    case False
    with assms \<open>hosted env\<close> show ?thesis by (simp add: getApiUrl_hosted_page)
  qed
qed

theorem getApiUrl_inj_witness:
  "api_path ''api/a'' = api_path ''/api/a'' \<and>
   getApiUrl \<lparr>has_window = True, is_prod = True, origin = ''https://klede.app''\<rparr> ''api/a'' =
   getApiUrl \<lparr>has_window = True, is_prod = True, origin = ''https://klede.app''\<rparr> ''/api/a'' \<and>
   normalizedPath ''api/a'' = normalizedPath ''/api/a''"
  using getApiUrl_inj [of "''api/a''" "''/api/a''"
      "\<lparr>has_window = True, is_prod = True, origin = ''https://klede.app''\<rparr>"]
  by (simp add: klede_defs)


section \<open>Where a hosted request goes\<close>

text \<open>
  C26 (safety). In a hosted production runtime no request is addressed to the route
  \<^verbatim>\<open>/api/\<close> of the origin, whatever path is asked for, and a request is addressed to the
  function route exactly when the path is an API path or names the function route itself.
\<close>

theorem getApiUrl_hosted_routes:
  assumes "hosted env"
  shows "\<not> prefix (origin env @ ''/api/'') (getApiUrl env path) \<and>
    (prefix (origin env @ ''/.netlify/functions/api-standalone/'') (getApiUrl env path) \<longleftrightarrow>
       prefix ''/api/'' (normalizedPath path) \<or>
       prefix ''/.netlify/functions/api-standalone/'' (normalizedPath path))"
proof (cases "api_path path")
  case True
  then have api: "prefix ''/api/'' (normalizedPath path)" by (simp add: api_path_def)
  from assms True show ?thesis
    by (simp add: getApiUrl_hosted_api drop4_drop5 [OF api] api)
next
  case False
  then have "\<not> prefix ''/api/'' (normalizedPath path)" by (simp add: api_path_def)
  with assms False show ?thesis by (simp add: getApiUrl_hosted_page)
qed

theorem getApiUrl_hosted_routes_witness:
  "\<not> prefix ''https://klede.app/api/''
      (getApiUrl \<lparr>has_window = True, is_prod = True, origin = ''https://klede.app''\<rparr> ''api/waitlist'') \<and>
   prefix ''https://klede.app/.netlify/functions/api-standalone/''
      (getApiUrl \<lparr>has_window = True, is_prod = True, origin = ''https://klede.app''\<rparr> ''api/waitlist'')"
  using getApiUrl_hosted_routes
    [of "\<lparr>has_window = True, is_prod = True, origin = ''https://klede.app''\<rparr>" "''api/waitlist''"]
  by (simp add: klede_defs)

end
