(* ===== verification/RequestExecutor.thy ===== *)
theory RequestExecutor
  imports EndpointResolver
begin

text \<open>
  The request executor of \<^verbatim>\<open>client/src/lib/queryClient.ts\<close>: \<^verbatim>\<open>throwIfResNotOk\<close>
  (lines 3 to 10), \<^verbatim>\<open>apiRequest\<close> (lines 41 to 69) and \<^verbatim>\<open>getQueryFn\<close> (lines 71 to 90).

  \<^item> A \<open>response\<close> holds the fields the sources read of a \<^verbatim>\<open>Response\<close>; \<open>body_text\<close> is
    what \<^verbatim>\<open>res.text()\<close> yields and \<open>ok\<close> is the getter \<^verbatim>\<open>res.ok\<close>. A \<open>request\<close> holds the
    URL and the fields of the init object passed to \<^verbatim>\<open>fetch\<close>.
  \<^item> A \<open>platform\<close> extends the runtime environment by the operations the sources call and
    do not define: the network (\<open>fetch\<close>, which answers a request with a response or
    rejects with an error), truthiness of the payload, \<^verbatim>\<open>JSON.stringify\<close> and
    \<^verbatim>\<open>Response.json\<close>.
  \<^item> An asynchronous function is modelled by the pair of the effects it performs, in
    order (console lines and network calls), and its outcome: \<open>Inr\<close> the value the
    promise resolves to or \<open>Inl\<close> the error it rejects with. \<open>io_bind\<close> sequences two
    steps and \<open>io_catch\<close> is \<^verbatim>\<open>try/catch\<close>.

  Simplifications: the network is a function of the request; \<^verbatim>\<open>res.text()\<close> does not
  reject and \<^verbatim>\<open>JSON.stringify\<close> does not throw; the result of \<open>getQueryFn\<close> is an option,
  with \<open>None\<close> for the \<^verbatim>\<open>null\<close> of line 85 and \<open>Some j\<close> for a parsed body, so the two are
  told apart even where a body parses to \<^verbatim>\<open>null\<close>; the elements of a query key are strings.
\<close>

section \<open>Requests, responses and the platform\<close>

record response =
  status :: nat
  statusText :: string
  body_text :: string
  url :: string

definition ok :: "response \<Rightarrow> bool" where
  "ok res \<longleftrightarrow> 200 \<le> status res \<and> status res \<le> 299"

record request =
  req_url :: string
  req_method :: "string option"
  req_headers :: "(string \<times> string) list"
  req_body :: "string option"
  req_credentials :: string

record ('d, 'j) platform = runtime_env +
  fetch :: "request \<Rightarrow> error + response"
  truthy :: "'d \<Rightarrow> bool"
  stringify :: "'d \<Rightarrow> string"
  json :: "string \<Rightarrow> error + 'j"

section \<open>Effects and outcomes\<close>

datatype 'd effect = Console "'d console" | Fetch request

type_synonym ('d, 'a) io = "'d effect list \<times> (error + 'a)"

abbreviation effects :: "('d, 'a) io \<Rightarrow> 'd effect list" where
  "effects \<equiv> fst"

abbreviation outcome :: "('d, 'a) io \<Rightarrow> error + 'a" where
  "outcome \<equiv> snd"

definition io_return :: "'a \<Rightarrow> ('d, 'a) io" where
  "io_return a = ([], Inr a)"

definition io_throw :: "error \<Rightarrow> ('d, 'a) io" where
  "io_throw e = ([], Inl e)"

definition io_emit :: "'d effect list \<Rightarrow> ('d, unit) io" where
  "io_emit out = (out, Inr ())"

definition io_bind :: "('d, 'a) io \<Rightarrow> ('a \<Rightarrow> ('d, 'b) io) \<Rightarrow> ('d, 'b) io" where
  "io_bind m f =
     (case outcome m of
        Inl e \<Rightarrow> (effects m, Inl e)
      | Inr a \<Rightarrow> (effects m @ effects (f a), outcome (f a)))"

definition io_catch :: "('d, 'a) io \<Rightarrow> (error \<Rightarrow> ('d, 'a) io) \<Rightarrow> ('d, 'a) io" where
  "io_catch m h =
     (case outcome m of
        Inl e \<Rightarrow> (effects m @ effects (h e), outcome (h e))
      | Inr a \<Rightarrow> m)"

definition io_fetch :: "('d, 'j, 'z) platform_scheme \<Rightarrow> request \<Rightarrow> ('d, response) io" where
  "io_fetch p req = ([Fetch req], fetch p req)"

fun is_fetch :: "'d effect \<Rightarrow> bool" where
  "is_fetch (Fetch _) = True"
| "is_fetch (Console _) = False"

definition fetched :: "'d effect list \<Rightarrow> request list" where
  "fetched out = [req. Fetch req \<leftarrow> out]"

section \<open>The executor\<close>

definition errorMessage :: "response \<Rightarrow> string" where
  "errorMessage res =
     (let text = js_or (body_text res) (statusText res)
      in decimal (status res) @ '': '' @ text)"

definition throwIfResNotOk :: "response \<Rightarrow> ('d, unit) io" where
  "throwIfResNotOk res =
     (if \<not> ok res then
        io_bind
          (io_emit [Console (ConsoleError
             [Txt ''API Error:'', Txt (errorMessage res), Txt ''URL:'', Txt (url res)])])
          (\<lambda>_. io_throw (Error (errorMessage res)))
      else io_return ())"

definition payload :: "('d, 'j, 'z) platform_scheme \<Rightarrow> 'd option \<Rightarrow> 'd option" where
  "payload p data = (case data of None \<Rightarrow> None | Some d \<Rightarrow> if truthy p d then Some d else None)"

definition request_init ::
    "('d, 'j, 'z) platform_scheme \<Rightarrow> string \<Rightarrow> string \<Rightarrow> 'd option \<Rightarrow> request" where
  "request_init p apiUrl method data =
     \<lparr>req_url = apiUrl,
      req_method = Some method,
      req_headers = (case payload p data of
                       Some _ \<Rightarrow> [(''Content-Type'', ''application/json'')]
                     | None \<Rightarrow> []),
      req_body = map_option (stringify p) (payload p data),
      req_credentials = ''include''\<rparr>"

definition apiRequest ::
    "('d, 'j, 'z) platform_scheme \<Rightarrow> string \<Rightarrow> string \<Rightarrow> 'd option \<Rightarrow> ('d, response) io" where
  "apiRequest p method path data =
     (let apiUrl = getApiUrl p path in
      io_bind (io_emit (map Console (getApiUrl_console p path))) (\<lambda>_.
      io_bind (io_emit [Console (ConsoleLog
                 [Txt (''Making '' @ method @ '' request to: '' @ apiUrl)])]) (\<lambda>_.
      io_bind (io_emit (case payload p data of
                          Some d \<Rightarrow> [Console (ConsoleLog [Txt ''Request data:'', Data d])]
                        | None \<Rightarrow> [])) (\<lambda>_.
      io_catch
        (io_bind (io_fetch p (request_init p apiUrl method data)) (\<lambda>res.
         io_bind (io_emit [Console (ConsoleLog
                    [Txt (''Response status: '' @ decimal (status res))])]) (\<lambda>_.
         io_bind (throwIfResNotOk res) (\<lambda>_.
         io_return res))))
        (\<lambda>error.
         io_bind (io_emit [Console (ConsoleError [Txt ''Request failed:'', Exn error])]) (\<lambda>_.
         io_throw error))))))"

datatype UnauthorizedBehavior = ReturnNull | Throw

definition query_init :: "string \<Rightarrow> request" where
  "query_init apiUrl =
     \<lparr>req_url = apiUrl, req_method = None, req_headers = [], req_body = None,
      req_credentials = ''include''\<rparr>"

definition getQueryFn ::
    "('d, 'j, 'z) platform_scheme \<Rightarrow> UnauthorizedBehavior \<Rightarrow> string list \<Rightarrow> ('d, 'j option) io" where
  "getQueryFn p unauthorizedBehavior queryKey =
     (case queryKey of
        [] \<Rightarrow> io_throw (TypeError ''Cannot read properties of undefined (reading startsWith)'')
      | key # _ \<Rightarrow>
         (let apiUrl = getApiUrl p key in
          io_bind (io_emit (map Console (getApiUrl_console p key))) (\<lambda>_.
          io_bind (io_fetch p (query_init apiUrl)) (\<lambda>res.
            if unauthorizedBehavior = ReturnNull \<and> status res = 401 then io_return None
            else
              io_bind (throwIfResNotOk res) (\<lambda>_.
              (case json p (body_text res) of
                 Inl e \<Rightarrow> io_throw e
               | Inr j \<Rightarrow> io_return (Some j)))))))"

lemmas [klede_defs] = ok_def io_return_def io_throw_def io_emit_def io_bind_def io_catch_def
  io_fetch_def fetched_def errorMessage_def throwIfResNotOk_def payload_def request_init_def apiRequest_def
  query_init_def getQueryFn_def

lemmas [klede_splits] = list.splits UnauthorizedBehavior.splits

section \<open>What an error message says, and a concrete platform\<close>

definition status_of_message :: "string \<Rightarrow> nat" where
  "status_of_message msg = parse_decimal (takeWhile (\<lambda>c. c \<noteq> CHR '':'') msg)"

definition text_of_message :: "string \<Rightarrow> string" where
  "text_of_message msg = drop 2 (dropWhile (\<lambda>c. c \<noteq> CHR '':'') msg)"

definition sample_response :: "nat \<Rightarrow> string \<Rightarrow> string \<Rightarrow> response" where
  "sample_response st reason txt =
     \<lparr>status = st, statusText = reason, body_text = txt,
      url = ''https://klede.app/.netlify/functions/api-standalone/waitlist''\<rparr>"

definition sample_platform :: "bool \<Rightarrow> error + response \<Rightarrow> (string, string) platform" where
  "sample_platform production answer =
     \<lparr>has_window = True, is_prod = production, origin = ''https://klede.app'',
      fetch = (\<lambda>_. answer), truthy = (\<lambda>d. d \<noteq> []),
      stringify = (\<lambda>d. CHR 0x22 # d @ [CHR 0x22]), json = Inr\<rparr>"

lemmas [klede_defs] = status_of_message_def text_of_message_def sample_response_def
  sample_platform_def

section \<open>Laws of sequencing\<close>

lemma outcome_io_return [simp]: "outcome (io_return a) = Inr a"
  and effects_io_return [simp]: "effects (io_return a) = []"
  by (simp_all add: io_return_def)

lemma outcome_io_throw [simp]: "outcome (io_throw e) = Inl e"
  and effects_io_throw [simp]: "effects (io_throw e) = []"
  by (simp_all add: io_throw_def)

lemma outcome_io_emit [simp]: "outcome (io_emit out) = Inr ()"
  and effects_io_emit [simp]: "effects (io_emit out) = out"
  by (simp_all add: io_emit_def)

lemma outcome_io_fetch [simp]: "outcome (io_fetch p req) = fetch p req"
  and effects_io_fetch [simp]: "effects (io_fetch p req) = [Fetch req]"
  by (simp_all add: io_fetch_def)

lemma outcome_io_bind [simp]:
  "outcome (io_bind m f) = (case outcome m of Inl e \<Rightarrow> Inl e | Inr a \<Rightarrow> outcome (f a))"
  by (simp add: io_bind_def split: sum.split)

lemma effects_io_bind [simp]:
  "effects (io_bind m f) = effects m @ (case outcome m of Inl e \<Rightarrow> [] | Inr a \<Rightarrow> effects (f a))"
  by (simp add: io_bind_def split: sum.split)

lemma outcome_io_catch [simp]:
  "outcome (io_catch m h) = (case outcome m of Inl e \<Rightarrow> outcome (h e) | Inr a \<Rightarrow> Inr a)"
  by (cases m) (simp add: io_catch_def split: sum.split)

lemma effects_io_catch [simp]:
  "effects (io_catch m h) = effects m @ (case outcome m of Inl e \<Rightarrow> effects (h e) | Inr a \<Rightarrow> [])"
  by (simp add: io_catch_def split: sum.split)

lemma io_bind_return_left [simp]: "io_bind (io_return a) f = f a"
  by (simp add: io_bind_def io_return_def)

lemma io_bind_return_right [simp]: "io_bind m io_return = m"
  by (cases m) (simp add: io_bind_def io_return_def split: sum.split)

lemma io_bind_assoc: "io_bind (io_bind m f) g = io_bind m (\<lambda>a. io_bind (f a) g)"
  by (rule prod_eqI) (simp_all split: sum.split)

lemma fetched_append [simp]: "fetched (xs @ ys) = fetched xs @ fetched ys"
  by (simp add: fetched_def)

lemma fetched_Nil [simp]: "fetched [] = []"
  and fetched_Fetch [simp]: "fetched (Fetch req # out) = req # fetched out"
  and fetched_Console [simp]: "fetched (Console c # out) = fetched out"
  by (simp_all add: fetched_def)

lemma fetched_map_Console [simp]: "fetched (map Console cs) = []"
  by (induction cs) simp_all

section \<open>Outcome of \<open>throwIfResNotOk\<close>\<close>

lemma outcome_throwIfResNotOk [simp]:
  "outcome (throwIfResNotOk res) = (if ok res then Inr () else Inl (Error (errorMessage res)))"
  by (simp add: throwIfResNotOk_def)

lemma effects_throwIfResNotOk [simp]:
  "effects (throwIfResNotOk res) =
     (if ok res then []
      else [Console (ConsoleError
              [Txt ''API Error:'', Txt (errorMessage res), Txt ''URL:'', Txt (url res)])])"
  by (simp add: throwIfResNotOk_def)

lemma fetched_throwIfResNotOk [simp]: "fetched (effects (throwIfResNotOk res)) = []"
  by simp

lemma errorMessage_eq: "errorMessage res =
    decimal (status res) @ CHR '':'' # CHR '' '' # js_or (body_text res) (statusText res)"
  by (simp add: errorMessage_def)

text \<open>
  C9 (roundtrip). The message of an HTTP failure determines what it was built from: the
  digits before the first colon read back as the status code, and what follows the colon
  and the blank is the response text, or the status line when the text is empty.
\<close>

theorem errorMessage_roundtrip:
  "status_of_message (errorMessage res) = status res \<and>
   text_of_message (errorMessage res) = js_or (body_text res) (statusText res)"
proof -
  have "c \<noteq> CHR '':''" if "c \<in> set (decimal (status res))" for c
    using that colon_notin_decimal by metis
  then have "dropWhile (\<lambda>c. c \<noteq> CHR '':'') (errorMessage res) =
      CHR '':'' # CHR '' '' # js_or (body_text res) (statusText res)"
    by (simp add: errorMessage_eq dropWhile_append2)
  then show ?thesis
    by (simp add: status_of_message_def text_of_message_def errorMessage_eq)
qed

section \<open>Outcome and effects of \<open>apiRequest\<close>\<close>

lemma outcome_apiRequest:
  "outcome (apiRequest p method path data) =
     (case fetch p (request_init p (getApiUrl p path) method data) of
        Inl e \<Rightarrow> Inl e
      | Inr res \<Rightarrow> if ok res then Inr res else Inl (Error (errorMessage res)))"
  by (simp add: apiRequest_def Let_def split: sum.splits)

lemma effects_apiRequest:
  "effects (apiRequest p method path data) =
     map Console (getApiUrl_console p path) @
     Console (ConsoleLog [Txt (''Making '' @ method @ '' request to: '' @ getApiUrl p path)]) #
     (case payload p data of
        Some d \<Rightarrow> [Console (ConsoleLog [Txt ''Request data:'', Data d])]
      | None \<Rightarrow> []) @
     Fetch (request_init p (getApiUrl p path) method data) #
     (case fetch p (request_init p (getApiUrl p path) method data) of
        Inl e \<Rightarrow> [Console (ConsoleError [Txt ''Request failed:'', Exn e])]
      | Inr res \<Rightarrow>
          Console (ConsoleLog [Txt (''Response status: '' @ decimal (status res))]) #
          (if ok res then []
           else [Console (ConsoleError
                   [Txt ''API Error:'', Txt (errorMessage res), Txt ''URL:'', Txt (url res)]),
                 Console (ConsoleError [Txt ''Request failed:'', Exn (Error (errorMessage res))])]))"
  by (simp add: apiRequest_def Let_def split: sum.splits option.splits)

text \<open>
  C1 (error). \<open>apiRequest\<close> succeeds exactly when the network answers and the status of the
  answer is in 200 to 299; the value is then the response itself. No response with another
  status is ever returned to a caller.
\<close>

theorem apiRequest_success_iff:
  "outcome (apiRequest p method path data) = Inr res \<longleftrightarrow>
   fetch p (request_init p (getApiUrl p path) method data) = Inr res \<and>
   200 \<le> status res \<and> status res \<le> 299"
  by (auto simp: outcome_apiRequest ok_def split: sum.splits if_splits)

theorem apiRequest_success_iff_witness:
  "outcome (apiRequest (sample_platform True (Inr (sample_response 201 ''Created'' ''{}'')))
      ''POST'' ''/api/waitlist'' (Some ''a@b.c'')) = Inr (sample_response 201 ''Created'' ''{}'') \<and>
   outcome (apiRequest
      (sample_platform True (Inr (sample_response 500 ''Internal Server Error'' ''db down'')))
      ''POST'' ''/api/waitlist'' (Some ''a@b.c''))
     \<noteq> Inr (sample_response 500 ''Internal Server Error'' ''db down'')"
  using apiRequest_success_iff
    [of "sample_platform True (Inr (sample_response 201 ''Created'' ''{}''))"
        "''POST''" "''/api/waitlist''" "Some ''a@b.c''" "sample_response 201 ''Created'' ''{}''"]
    apiRequest_success_iff
    [of "sample_platform True (Inr (sample_response 500 ''Internal Server Error'' ''db down''))"
        "''POST''" "''/api/waitlist''" "Some ''a@b.c''"
        "sample_response 500 ''Internal Server Error'' ''db down''"]
  by (simp add: sample_platform_def sample_response_def)

text \<open>
  C8 (error). Where a failure of \<open>apiRequest\<close> comes from: either the network rejected
  the call, and the error is passed on unchanged, or the network answered with a status
  outside 200 to 299, and the error is an \<open>Error\<close> whose message is the status, a colon
  and the response text (or the status line when the text is empty).
\<close>

theorem apiRequest_failure_iff:
  "outcome (apiRequest p method path data) = Inl e \<longleftrightarrow>
   fetch p (request_init p (getApiUrl p path) method data) = Inl e \<or>
   (\<exists>res. fetch p (request_init p (getApiUrl p path) method data) = Inr res \<and>
      (status res < 200 \<or> 299 < status res) \<and> e = Error (errorMessage res))"
  by (auto simp: outcome_apiRequest ok_def split: sum.splits if_splits)

text \<open>
  C21 (safety). One call of \<open>apiRequest\<close> performs exactly one network call, whatever the
  outcome: there is no retry. The call goes to the URL that \<open>getApiUrl\<close> gives for the
  path at the time of the call.
\<close>

theorem apiRequest_single_fetch:
  "fetched (effects (apiRequest p method path data)) =
     [request_init p (getApiUrl p path) method data]"
  by (simp add: effects_apiRequest split: sum.splits option.splits)

text \<open>
  C34 (error). A failed call is reported on the console before it is rethrown, and only a
  failed call is: the last effect of \<open>apiRequest\<close> is the line \<^verbatim>\<open>Request failed:\<close> with the
  error exactly when the outcome is that error.
\<close>

theorem apiRequest_failure_logged:
  "outcome (apiRequest p method path data) = Inl e \<longleftrightarrow>
   last (effects (apiRequest p method path data)) =
     Console (ConsoleError [Txt ''Request failed:'', Exn e])"
  by (auto simp: outcome_apiRequest effects_apiRequest split: sum.splits option.splits)

section \<open>Outcome and effects of \<open>getQueryFn\<close>\<close>

lemma outcome_getQueryFn:
  "outcome (getQueryFn p b (key # ks)) =
     (case fetch p (query_init (getApiUrl p key)) of
        Inl e \<Rightarrow> Inl e
      | Inr res \<Rightarrow>
          if b = ReturnNull \<and> status res = 401 then Inr None
          else if ok res then map_sum id Some (json p (body_text res))
          else Inl (Error (errorMessage res)))"
  by (simp add: getQueryFn_def Let_def split: sum.splits)

lemma outcome_getQueryFn_Nil:
  "outcome (getQueryFn p b []) =
     Inl (TypeError ''Cannot read properties of undefined (reading startsWith)'')"
  by (simp add: getQueryFn_def)

lemma effects_getQueryFn:
  "effects (getQueryFn p b (key # ks)) =
     map Console (getApiUrl_console p key) @
     Fetch (query_init (getApiUrl p key)) #
     (case fetch p (query_init (getApiUrl p key)) of
        Inl e \<Rightarrow> []
      | Inr res \<Rightarrow>
          if (b = ReturnNull \<and> status res = 401) \<or> ok res then []
          else [Console (ConsoleError
                  [Txt ''API Error:'', Txt (errorMessage res), Txt ''URL:'', Txt (url res)])])"
  by (simp add: getQueryFn_def Let_def split: sum.splits)

text \<open>
  C6 (error). The policy for status 401 at the read path: with \<open>ReturnNull\<close> the query
  yields null and no error; with \<open>Throw\<close> it fails with the message built from the
  response, like any other status outside 200 to 299.
\<close>

theorem getQueryFn_unauthorized:
  assumes "fetch p (query_init (getApiUrl p key)) = Inr res" and "status res = 401"
  shows "outcome (getQueryFn p ReturnNull (key # ks)) = Inr None \<and>
    outcome (getQueryFn p Throw (key # ks)) = Inl (Error (errorMessage res))"
  using assms by (simp add: outcome_getQueryFn ok_def)

theorem getQueryFn_unauthorized_witness:
  "outcome (getQueryFn (sample_platform True (Inr (sample_response 401 ''Unauthorized'' [])))
      ReturnNull [''/api/user'']) = Inr None \<and>
   outcome (getQueryFn (sample_platform True (Inr (sample_response 401 ''Unauthorized'' [])))
      Throw [''/api/user'']) = Inl (Error ''401: Unauthorized'')"
  using getQueryFn_unauthorized
    [of "sample_platform True (Inr (sample_response 401 ''Unauthorized'' []))" "''/api/user''"
        "sample_response 401 ''Unauthorized'' []" "[]"]
  by (simp add: klede_defs)

text \<open>
  C35 (error). A query yields data only from a response whose status is in 200 to 299
  and whose body parses: the data is then the parsed body of that response.
\<close>

theorem getQueryFn_data_iff:
  "outcome (getQueryFn p b queryKey) = Inr (Some j) \<longleftrightarrow>
   (\<exists>key ks res. queryKey = key # ks \<and>
      fetch p (query_init (getApiUrl p key)) = Inr res \<and>
      200 \<le> status res \<and> status res \<le> 299 \<and> json p (body_text res) = Inr j)"
proof (cases queryKey)
  case Nil
  then show ?thesis by (simp add: outcome_getQueryFn_Nil)
next
  case (Cons key ks)
  then show ?thesis
    by (cases "json p (body_text (projr (fetch p (query_init (getApiUrl p key)))))")
      (auto simp: outcome_getQueryFn ok_def split: sum.splits if_splits)
qed

text \<open>
  C37 (error). A query yields null without data only in the one case that the call site
  selected: the policy is \<open>ReturnNull\<close> and the response has status 401. No other failure
  is turned into an empty result.
\<close>

theorem getQueryFn_null_iff:
  "outcome (getQueryFn p b queryKey) = Inr None \<longleftrightarrow>
   b = ReturnNull \<and>
   (\<exists>key ks res. queryKey = key # ks \<and>
      fetch p (query_init (getApiUrl p key)) = Inr res \<and> status res = 401)"
proof (cases queryKey)
  case Nil
  then show ?thesis by (simp add: outcome_getQueryFn_Nil)
next
  case (Cons key ks)
  then show ?thesis
    by (cases "json p (body_text (projr (fetch p (query_init (getApiUrl p key)))))")
      (auto simp: outcome_getQueryFn split: sum.splits if_splits)
qed

text \<open>
  C38 (safety). A query performs at most one network call: none when the key is empty,
  otherwise exactly one, a credentialed request without method, headers or body to the
  URL that \<open>getApiUrl\<close> gives for the first element of the key.
\<close>

theorem getQueryFn_single_fetch:
  "fetched (effects (getQueryFn p b queryKey)) =
     map (\<lambda>key. \<lparr>req_url = getApiUrl p key, req_method = None, req_headers = [],
                  req_body = None, req_credentials = ''include''\<rparr>) (take 1 queryKey)"
proof (cases queryKey)
  case Nil
  then show ?thesis by (simp add: getQueryFn_def)
next
  case (Cons key ks)
  then show ?thesis
    by (simp add: effects_getQueryFn query_init_def split: sum.splits)
qed

text \<open>
  C39 (functional). A payload that is given but falsy is treated as no payload at all:
  the call logs, sends and returns exactly what the call without a payload does, so no
  body and no content type reach the server.
\<close>

theorem apiRequest_falsy_payload:
  "\<not> truthy p d \<Longrightarrow> apiRequest p method path (Some d) = apiRequest p method path None"
  by (simp add: apiRequest_def request_init_def payload_def)

theorem apiRequest_falsy_payload_witness:
  "\<not> truthy (sample_platform True (Inr (sample_response 200 ''OK'' ''{}''))) [] \<and>
   fetched (effects (apiRequest (sample_platform True (Inr (sample_response 200 ''OK'' ''{}'')))
      ''POST'' ''/api/waitlist'' (Some []))) =
     [\<lparr>req_url = ''https://klede.app/.netlify/functions/api-standalone/waitlist'',
       req_method = Some ''POST'', req_headers = [], req_body = None,
       req_credentials = ''include''\<rparr>]"
  using apiRequest_falsy_payload
    [of "sample_platform True (Inr (sample_response 200 ''OK'' ''{}''))" "[]" "''POST''"
        "''/api/waitlist''"]
  by (simp add: klede_defs)


section \<open>The read path and the write path agree\<close>

text \<open>
  C36 (equivalence). The read path is the write path followed by the parsing of the body:
  where the network answers the request of \<open>getQueryFn\<close> as it answers the request of
  \<open>apiRequest\<close> for the same path, the query resolves or fails exactly as \<open>apiRequest\<close>
  followed by \<^verbatim>\<open>res.json()\<close> does, with the same error, except for a 401 under the policy
  returnNull, which is the one failure that the read path turns into a result.
\<close>

theorem getQueryFn_as_apiRequest:
  assumes "fetch p (query_init (getApiUrl p key)) =
    fetch p (request_init p (getApiUrl p key) method data)"
  shows "outcome (getQueryFn p b (key # ks)) =
    (if b = ReturnNull \<and> (\<exists>res. fetch p (query_init (getApiUrl p key)) = Inr res \<and> status res = 401)
     then Inr None
     else outcome (io_bind (apiRequest p method key data)
            (\<lambda>res. case json p (body_text res) of Inl e \<Rightarrow> io_throw e | Inr j \<Rightarrow> io_return (Some j))))"
  using assms
  by (auto simp: outcome_getQueryFn outcome_apiRequest split: sum.splits)

theorem getQueryFn_as_apiRequest_witness:
  "outcome (getQueryFn
      (sample_platform True (Inr (sample_response 500 ''Internal Server Error'' ''db down'')))
      Throw [''/api/user'']) =
   outcome (io_bind
      (apiRequest (sample_platform True (Inr (sample_response 500 ''Internal Server Error'' ''db down'')))
         ''GET'' ''/api/user'' None)
      (\<lambda>res. case json (sample_platform True (Inr (sample_response 500 ''Internal Server Error'' ''db down'')))
                   (body_text res) of
               Inl e \<Rightarrow> io_throw e | Inr j \<Rightarrow> io_return (Some j)))"
  using getQueryFn_as_apiRequest
    [of "sample_platform True (Inr (sample_response 500 ''Internal Server Error'' ''db down''))"
        "''/api/user''" "''GET''" None Throw "[]"]
  by (simp add: sample_platform_def)

end
