(* ===== verification/SubmissionWorkflow.thy ===== *)
theory SubmissionWorkflow
  imports Klede_Prelude
begin

text \<open>
  The submission workflow of \<^verbatim>\<open>client/src/components/WaitlistCard.tsx\<close>.

  \<^item> \<open>card\<close> is the state of one mounted component: \<open>isSuccess\<close> (line 15), the field
    error of the form (\<open>errors_email\<close>, line 21), the status of the mutation (line 29), the
    toasts shown so far (line 37), and two counters of the asynchronous part: \<open>calls\<close>,
    the arguments with which \<^verbatim>\<open>mutationFn\<close> was invoked, and \<open>inflight\<close>, the number of its
    promises that have not settled.
  \<^item> \<open>onSubmit\<close>, \<open>onSuccess\<close>, \<open>onError\<close> are the callbacks of lines 45 to 47, 33 to 35 and
    36 to 42. \<open>handleSubmit\<close>, \<open>mutate\<close>, \<open>resolved\<close> and \<open>rejected\<close> are the library operations that
    call them: validation by the resolver, the start of a mutation, and the settling of its
    promise (\<open>resolved\<close>, \<open>rejected\<close>). The resolver (\<^verbatim>\<open>zodResolver(emailSchema)\<close>) is a parameter: it maps the field
    value to \<open>None\<close> when it passes and to the field-level message otherwise.
  \<^item> \<open>render\<close> is the markup of lines 49 to 95 reduced to what depends on the state.
    A submit event reaches the handlers only when the rendered form has an enabled submit
    button (\<open>can_submit\<close>); this is the only guard against a second submission.
  \<^item> \<open>step\<close> dispatches one event, \<open>run\<close> a list of events, \<open>reachable\<close> are the states a
    mounted component can be in.
  \<^item> \<open>MutationState\<close> and \<open>workflow\<close> are the four-state machine that the component is
    meant to implement; \<open>abs_state\<close> and \<open>abs_event\<close> relate the two.
  \<^item> \<open>page\<close> adds the registered field (lines 18 to 27 and 57 to 63): its value starts
    empty, changes by typing while the input is enabled, and is what a submit of the form
    hands to \<open>handleSubmit\<close>. \<open>page_step\<close> dispatches the events of the page onto \<open>step\<close>.

  Not modelled: the re-validation of the field while typing. A submit is one atomic
  event, and \<open>handleSubmit\<close> hands the value of the field itself to \<open>onSubmit\<close>, where the
  resolver of the sources hands on the output of the schema.
\<close>

section \<open>State\<close>

datatype mutation_status = StatusIdle | StatusPending | StatusSuccess | StatusError error

record toast =
  title :: string
  description :: string
  variant :: string

record card =
  isSuccess :: bool
  errors_email :: "string option"
  mutation :: mutation_status
  toasts :: "toast list"
  calls :: "string list"
  inflight :: nat

definition init_card :: card where
  "init_card =
     \<lparr>isSuccess = False, errors_email = None, mutation = StatusIdle, toasts = [],
      calls = [], inflight = 0\<rparr>"

definition isPending :: "card \<Rightarrow> bool" where
  "isPending s \<longleftrightarrow> mutation s = StatusPending"

section \<open>Handlers\<close>

definition mutate :: "string \<Rightarrow> card \<Rightarrow> card" where
  "mutate v s = s\<lparr>mutation := StatusPending, calls := calls s @ [v], inflight := Suc (inflight s)\<rparr>"

definition onSubmit :: "string \<Rightarrow> card \<Rightarrow> card" where
  "onSubmit v s = mutate v s"

definition handleSubmit ::
    "(string \<Rightarrow> string option) \<Rightarrow> (string \<Rightarrow> card \<Rightarrow> card) \<Rightarrow> string \<Rightarrow> card \<Rightarrow> card" where
  "handleSubmit resolver on_valid v s =
     (case resolver v of
        Some msg \<Rightarrow> s\<lparr>errors_email := Some msg\<rparr>
      | None \<Rightarrow> on_valid v (s\<lparr>errors_email := None\<rparr>))"

definition onSuccess :: "card \<Rightarrow> card" where
  "onSuccess s = s\<lparr>isSuccess := True\<rparr>"

definition error_toast :: "error \<Rightarrow> toast" where
  "error_toast e =
     \<lparr>title = ''Error'',
      description = js_or (message e) ''Failed to join waitlist. Please try again.'',
      variant = ''destructive''\<rparr>"

definition onError :: "error \<Rightarrow> card \<Rightarrow> card" where
  "onError e s = s\<lparr>toasts := toasts s @ [error_toast e]\<rparr>"

definition resolved :: "card \<Rightarrow> card" where
  "resolved s = onSuccess (s\<lparr>mutation := StatusSuccess, inflight := inflight s - 1\<rparr>)"

definition rejected :: "error \<Rightarrow> card \<Rightarrow> card" where
  "rejected e s = onError e (s\<lparr>mutation := StatusError e, inflight := inflight s - 1\<rparr>)"

section \<open>View\<close>

datatype button_content = LoadingDots | JoinWaitlist

record form_view =
  input_disabled :: bool
  input_border :: string
  field_message :: "string option"
  button_disabled :: bool
  button_shows :: button_content

datatype view = Form form_view | SuccessPanel

definition render :: "card \<Rightarrow> view" where
  "render s =
     (if \<not> isSuccess s then
        Form \<lparr>input_disabled = isPending s,
              input_border = (if errors_email s \<noteq> None then ''border-red-500''
                              else ''border-gray-300''),
              field_message = errors_email s,
              button_disabled = isPending s,
              button_shows = (if isPending s then LoadingDots else JoinWaitlist)\<rparr>
      else SuccessPanel)"

definition can_submit :: "card \<Rightarrow> bool" where
  "can_submit s = (case render s of Form f \<Rightarrow> \<not> button_disabled f | SuccessPanel \<Rightarrow> False)"

section \<open>Events, steps and reachable states\<close>

datatype event = Submit string | Resolved | Rejected error

definition settlement :: "error + 'r \<Rightarrow> event" where
  "settlement r = (case r of Inl e \<Rightarrow> Rejected e | Inr _ \<Rightarrow> Resolved)"

fun step :: "(string \<Rightarrow> string option) \<Rightarrow> card \<Rightarrow> event \<Rightarrow> card" where
  "step resolver s (Submit v) = (if can_submit s then handleSubmit resolver onSubmit v s else s)"
| "step resolver s Resolved = (if 0 < inflight s then resolved s else s)"
| "step resolver s (Rejected e) = (if 0 < inflight s then rejected e s else s)"

fun run :: "(string \<Rightarrow> string option) \<Rightarrow> card \<Rightarrow> event list \<Rightarrow> card" where
  "run resolver s [] = s"
| "run resolver s (e # es) = run resolver (step resolver s e) es"

inductive reachable :: "(string \<Rightarrow> string option) \<Rightarrow> card \<Rightarrow> bool"
  for resolver :: "string \<Rightarrow> string option" where
  mounted: "reachable resolver init_card"
| stepped: "reachable resolver s \<Longrightarrow> reachable resolver (step resolver s e)"

lemmas [klede_defs] = init_card_def isPending_def mutate_def onSubmit_def handleSubmit_def
  onSuccess_def error_toast_def onError_def resolved_def rejected_def settlement_def
  render_def can_submit_def

lemmas [klede_splits] = mutation_status.splits view.splits event.splits

section \<open>The four-state machine and the abstraction\<close>

datatype MutationState = Idle | Pending | Succeeded | Failed string

datatype label = submit | success | failure string

inductive workflow :: "MutationState \<Rightarrow> label \<Rightarrow> MutationState \<Rightarrow> bool" where
  submit_idle: "workflow Idle submit Pending"
| submit_failed: "workflow (Failed m) submit Pending"
| submit_pending: "workflow Pending submit Pending"
| resolve_success: "workflow Pending success Succeeded"
| resolve_failure: "workflow Pending (failure m) (Failed m)"

code_pred workflow .

inductive_cases workflow_submitE: "workflow a submit b"
inductive_cases workflow_successE: "workflow a success b"
inductive_cases workflow_failureE: "workflow a (failure m) b"

fun abs_status :: "mutation_status \<Rightarrow> MutationState" where
  "abs_status StatusIdle = Idle"
| "abs_status StatusPending = Pending"
| "abs_status StatusSuccess = Succeeded"
| "abs_status (StatusError e) = Failed (description (error_toast e))"

definition abs_state :: "card \<Rightarrow> MutationState" where
  "abs_state s = abs_status (mutation s)"

fun abs_event :: "(string \<Rightarrow> string option) \<Rightarrow> card \<Rightarrow> event \<Rightarrow> label option" where
  "abs_event resolver s (Submit v) =
     (if resolver v = None \<and> \<not> isSuccess s then Some submit else None)"
| "abs_event resolver s Resolved = (if isPending s then Some success else None)"
| "abs_event resolver s (Rejected e) =
     (if isPending s then Some (failure (description (error_toast e))) else None)"

section \<open>The invariant\<close>

definition card_inv :: "(string \<Rightarrow> string option) \<Rightarrow> card \<Rightarrow> bool" where
  "card_inv resolver s \<longleftrightarrow>
     inflight s = (if isPending s then 1 else 0) \<and>
     (isSuccess s \<longleftrightarrow> mutation s = StatusSuccess) \<and>
     list_all (\<lambda>v. resolver v = None) (calls s) \<and>
     length (calls s) = inflight s + length (toasts s) + (if isSuccess s then 1 else 0) \<and>
     (case mutation s of
        StatusError e \<Rightarrow> toasts s \<noteq> [] \<and> last (toasts s) = error_toast e
      | _ \<Rightarrow> True)"

definition sample_resolver :: "string \<Rightarrow> string option" where
  "sample_resolver v = (if CHR ''@'' \<in> set v then None else Some ''Invalid email address'')"

lemmas [klede_defs] = abs_state_def card_inv_def sample_resolver_def

section \<open>The field of the form\<close>

record page =
  email_field :: string
  widget :: card

definition init_page :: page where
  "init_page = \<lparr>email_field = [], widget = init_card\<rparr>"

definition input_enabled :: "card \<Rightarrow> bool" where
  "input_enabled s = (case render s of Form f \<Rightarrow> \<not> input_disabled f | SuccessPanel \<Rightarrow> False)"

datatype page_event = Change string | SubmitForm | MutationResolved | MutationRejected error

fun page_step :: "(string \<Rightarrow> string option) \<Rightarrow> page \<Rightarrow> page_event \<Rightarrow> page" where
  "page_step resolver g (Change v) = (if input_enabled (widget g) then g\<lparr>email_field := v\<rparr> else g)"
| "page_step resolver g SubmitForm = g\<lparr>widget := step resolver (widget g) (Submit (email_field g))\<rparr>"
| "page_step resolver g MutationResolved = g\<lparr>widget := step resolver (widget g) Resolved\<rparr>"
| "page_step resolver g (MutationRejected e) =
     g\<lparr>widget := step resolver (widget g) (Rejected e)\<rparr>"

inductive page_reachable :: "(string \<Rightarrow> string option) \<Rightarrow> page \<Rightarrow> bool"
  for resolver :: "string \<Rightarrow> string option" where
  page_mounted: "page_reachable resolver init_page"
| page_stepped: "page_reachable resolver g \<Longrightarrow> page_reachable resolver (page_step resolver g e)"

definition page_inv :: "(string \<Rightarrow> string option) \<Rightarrow> page \<Rightarrow> bool" where
  "page_inv resolver g \<longleftrightarrow>
     reachable resolver (widget g) \<and>
     (\<not> input_enabled (widget g) \<longrightarrow> calls (widget g) \<noteq> [] \<and> last (calls (widget g)) = email_field g)"

lemmas [klede_defs] = init_page_def input_enabled_def page_inv_def

section \<open>Each handler on each branch\<close>

lemma can_submit_iff: "can_submit s \<longleftrightarrow> \<not> isSuccess s \<and> \<not> isPending s"
  by (simp add: can_submit_def render_def)

lemma step_Submit_valid:
  "can_submit s \<Longrightarrow> resolver v = None \<Longrightarrow>
   step resolver s (Submit v) =
     s\<lparr>errors_email := None, mutation := StatusPending, calls := calls s @ [v],
       inflight := Suc (inflight s)\<rparr>"
  by (simp add: handleSubmit_def onSubmit_def mutate_def)

lemma step_Submit_invalid:
  "can_submit s \<Longrightarrow> resolver v = Some msg \<Longrightarrow>
   step resolver s (Submit v) = s\<lparr>errors_email := Some msg\<rparr>"
  by (simp add: handleSubmit_def)

lemma step_Submit_disabled: "\<not> can_submit s \<Longrightarrow> step resolver s (Submit v) = s"
  by simp

lemma step_Resolved:
  "0 < inflight s \<Longrightarrow>
   step resolver s Resolved =
     s\<lparr>mutation := StatusSuccess, inflight := inflight s - 1, isSuccess := True\<rparr>"
  by (simp add: resolved_def onSuccess_def)

lemma step_Rejected:
  "0 < inflight s \<Longrightarrow>
   step resolver s (Rejected e) =
     s\<lparr>mutation := StatusError e, inflight := inflight s - 1,
       toasts := toasts s @ [error_toast e]\<rparr>"
  by (simp add: rejected_def onError_def)

lemma step_settle_idle:
  "inflight s = 0 \<Longrightarrow> step resolver s Resolved = s"
  "inflight s = 0 \<Longrightarrow> step resolver s (Rejected e) = s"
  by simp_all

lemmas step_branches [simp] = step_Submit_valid step_Submit_invalid step_Submit_disabled
  step_Resolved step_Rejected step_settle_idle

lemmas [klede_defs] = step.simps

declare step.simps [simp del]

lemma step_cases [case_names valid invalid disabled resolved rejected idle]:
  assumes "\<And>v. e = Submit v \<Longrightarrow> can_submit s \<Longrightarrow> resolver v = None \<Longrightarrow>
      P (s\<lparr>errors_email := None, mutation := StatusPending, calls := calls s @ [v],
           inflight := Suc (inflight s)\<rparr>)"
    and "\<And>v msg. e = Submit v \<Longrightarrow> can_submit s \<Longrightarrow> resolver v = Some msg \<Longrightarrow>
      P (s\<lparr>errors_email := Some msg\<rparr>)"
    and "\<And>v. e = Submit v \<Longrightarrow> \<not> can_submit s \<Longrightarrow> P s"
    and "e = Resolved \<Longrightarrow> 0 < inflight s \<Longrightarrow>
      P (s\<lparr>mutation := StatusSuccess, inflight := inflight s - 1, isSuccess := True\<rparr>)"
    and "\<And>err. e = Rejected err \<Longrightarrow> 0 < inflight s \<Longrightarrow>
      P (s\<lparr>mutation := StatusError err, inflight := inflight s - 1,
           toasts := toasts s @ [error_toast err]\<rparr>)"
    and "(\<forall>v. e \<noteq> Submit v) \<Longrightarrow> inflight s = 0 \<Longrightarrow> P s"
  shows "P (step resolver s e)"
proof (cases e)
  case (Submit v)
  show ?thesis
  proof (cases "can_submit s")
    case False
    with Submit assms(3) show ?thesis by simp
  next
    case True
    show ?thesis
    proof (cases "resolver v")
      case None
      with Submit True assms(1) show ?thesis by (simp only: step_Submit_valid)
    next
      case (Some msg)
      with Submit True assms(2) show ?thesis by (simp only: step_Submit_invalid)
    qed
  qed
next
  case Resolved
  with assms(4,6) show ?thesis
    by (cases "0 < inflight s") (simp_all only: step_Resolved, simp_all)
next
  case (Rejected err)
  with assms(5,6) show ?thesis
    by (cases "0 < inflight s") (simp_all only: step_Rejected, simp_all)
qed

section \<open>Every step keeps the invariant\<close>

lemma card_inv_init: "card_inv resolver init_card"
  by (simp add: card_inv_def init_card_def isPending_def)

lemma card_inv_step: "card_inv resolver s \<Longrightarrow> card_inv resolver (step resolver s e)"
  by (induction resolver s e rule: step_cases)
    (auto simp: card_inv_def isPending_def can_submit_iff split: mutation_status.splits if_splits)

lemma reachable_card_inv: "reachable resolver s \<Longrightarrow> card_inv resolver s"
  by (induction rule: reachable.induct) (simp_all add: card_inv_init card_inv_step)

lemma run_append: "run resolver s (es @ es') = run resolver (run resolver s es) es'"
  by (induction es arbitrary: s) simp_all

lemma reachable_run: "reachable resolver s \<Longrightarrow> reachable resolver (run resolver s es)"
  by (induction es arbitrary: s) (auto intro: reachable.stepped)

lemma reachable_iff_run: "reachable resolver s \<longleftrightarrow> (\<exists>es. s = run resolver init_card es)"
proof
  assume "reachable resolver s"
  then show "\<exists>es. s = run resolver init_card es"
  proof (induction rule: reachable.induct)
    case mounted
    have "init_card = run resolver init_card []" by simp
    then show ?case by blast
  next
    case (stepped s e)
    then obtain es where "s = run resolver init_card es" by blast
    then have "step resolver s e = run resolver init_card (es @ [e])"
      by (simp add: run_append)
    then show ?case by blast
  qed
next
  assume "\<exists>es. s = run resolver init_card es"
  then show "reachable resolver s"
    by (auto intro: reachable_run reachable.mounted)
qed

lemma reachable_sample:
  "reachable sample_resolver (run sample_resolver init_card es)"
  by (rule reachable_run) (rule reachable.mounted)

section \<open>Safety of the workflow\<close>

text \<open>
  C2 (safety). At most one mutation is in flight at any time, and one is in flight
  exactly while the mutation is pending: the disabled submit button is enough to keep a
  second submission from starting a second call.
\<close>

theorem single_inflight:
  "reachable resolver s \<Longrightarrow> inflight s \<le> 1 \<and> (inflight s = 1 \<longleftrightarrow> isPending s)"
  by (drule reachable_card_inv) (simp add: card_inv_def)

theorem single_inflight_witness:
  "inflight (run sample_resolver init_card [Submit ''a@b.c'', Submit ''c@d.e'']) = 1 \<and>
   calls (run sample_resolver init_card [Submit ''a@b.c'', Submit ''c@d.e'']) = [''a@b.c''] \<and>
   isPending (run sample_resolver init_card [Submit ''a@b.c'', Submit ''c@d.e''])"
  using single_inflight [OF reachable_sample [of "[Submit ''a@b.c'', Submit ''c@d.e'']"]]
  by (simp add: klede_defs)

text \<open>
  C7 (safety). Every value that was handed to the mutation function passed the
  resolver: input that fails validation never reaches the network layer.
\<close>

theorem validated_calls:
  "reachable resolver s \<Longrightarrow> v \<in> set (calls s) \<Longrightarrow> resolver v = None"
  by (drule reachable_card_inv) (simp add: card_inv_def list_all_iff)

theorem validated_calls_witness:
  "calls (run sample_resolver init_card [Submit ''not-an-email'', Submit ''a@b.c'']) = [''a@b.c''] \<and>
   sample_resolver ''a@b.c'' = None \<and>
   errors_email (run sample_resolver init_card [Submit ''not-an-email'']) =
     Some ''Invalid email address''"
  using validated_calls
    [OF reachable_sample [of "[Submit ''not-an-email'', Submit ''a@b.c'']"], of "''a@b.c''"]
  by (simp add: klede_defs)

text \<open>
  C27 (invariant). Every call of the mutation function is accounted for: it is still in
  flight, or it failed and produced exactly one toast, or it is the one call that
  succeeded.
\<close>

theorem calls_accounted:
  "reachable resolver s \<Longrightarrow>
   length (calls s) = inflight s + length (toasts s) + (if isSuccess s then 1 else 0)"
  by (drule reachable_card_inv) (simp add: card_inv_def)

theorem calls_accounted_witness:
  "length (calls (run sample_resolver init_card
      [Submit ''a@b.c'', Rejected (Error ''500: db down''), Submit ''a@b.c'', Resolved])) = 2 \<and>
   toasts (run sample_resolver init_card
      [Submit ''a@b.c'', Rejected (Error ''500: db down''), Submit ''a@b.c'', Resolved]) =
     [\<lparr>title = ''Error'', description = ''500: db down'', variant = ''destructive''\<rparr>] \<and>
   isSuccess (run sample_resolver init_card
      [Submit ''a@b.c'', Rejected (Error ''500: db down''), Submit ''a@b.c'', Resolved])"
  using calls_accounted [OF reachable_sample
      [of "[Submit ''a@b.c'', Rejected (Error ''500: db down''), Submit ''a@b.c'', Resolved]"]]
  by (simp add: klede_defs)

lemma success_step: "card_inv resolver s \<Longrightarrow> isSuccess s \<Longrightarrow> step resolver s e = s"
  by (cases e) (auto simp: card_inv_def can_submit_iff isPending_def)

text \<open>
  C10 (safety). Success is final: once the success panel is shown, no event changes the
  state of the component any more. In particular there is no new attempt after a success.
\<close>

theorem success_final:
  "reachable resolver s \<Longrightarrow> isSuccess s \<Longrightarrow> run resolver s es = s"
proof (induction es)
  case Nil
  show ?case by simp
next
  case (Cons e es)
  from Cons.prems have "step resolver s e = s"
    by (simp add: reachable_card_inv success_step)
  with Cons show ?case by simp
qed

theorem success_final_witness:
  "isSuccess (run sample_resolver init_card [Submit ''a@b.c'', Resolved]) \<and>
   run sample_resolver (run sample_resolver init_card [Submit ''a@b.c'', Resolved])
     [Submit ''c@d.e'', Rejected (Error ''late''), Resolved] =
   run sample_resolver init_card [Submit ''a@b.c'', Resolved]"
  using success_final [OF reachable_sample [of "[Submit ''a@b.c'', Resolved]"],
      of "[Submit ''c@d.e'', Rejected (Error ''late''), Resolved]"]
  by (simp add: klede_defs)

section \<open>The component implements the four-state machine\<close>

text \<open>
  C4 (refinement). Every step of a mounted component is a transition of the four-state
  machine or leaves its state unchanged: a valid submit is the transition \<open>submit\<close> (which
  the machine ignores while pending), the settling of the pending call is \<open>success\<close> or
  \<open>failure\<close> with the message that the toast shows, and every other event (an invalid
  submit, a settlement when nothing is pending) changes nothing.
\<close>

theorem step_refines_workflow:
  assumes "reachable resolver s"
  shows "case abs_event resolver s e of
           None \<Rightarrow> abs_state (step resolver s e) = abs_state s
         | Some l \<Rightarrow> workflow (abs_state s) l (abs_state (step resolver s e))"
proof -
  from assms have inv: "card_inv resolver s" by (rule reachable_card_inv)
  show ?thesis
  proof (cases e)
    case (Submit v)
    with inv show ?thesis
      by (cases "mutation s"; cases "resolver v")
        (auto simp: card_inv_def abs_state_def isPending_def can_submit_iff handleSubmit_def
          onSubmit_def mutate_def intro: workflow.intros)
  next
    case Resolved
    with inv show ?thesis
      by (cases "mutation s")
        (auto simp: card_inv_def abs_state_def isPending_def resolved_def onSuccess_def
          intro: workflow.intros)
  next
    case (Rejected err)
    with inv show ?thesis
      by (cases "mutation s")
        (auto simp: card_inv_def abs_state_def isPending_def rejected_def onError_def
          intro: workflow.intros)
  qed
qed

theorem step_refines_workflow_witness:
  "workflow Idle submit (abs_state (step sample_resolver init_card (Submit ''a@b.c''))) \<and>
   workflow Pending (failure ''500: db down'')
     (abs_state (run sample_resolver init_card [Submit ''a@b.c'', Rejected (Error ''500: db down'')]))"
  using step_refines_workflow [OF reachable.mounted, of sample_resolver "Submit ''a@b.c''"]
    step_refines_workflow [OF reachable_sample [of "[Submit ''a@b.c'']"],
      of "Rejected (Error ''500: db down'')"]
  by (simp add: klede_defs)

section \<open>Functional behaviour of one attempt\<close>

text \<open>
  C28 (functional). One attempt from the initial state: a valid submit makes the mutation
  pending with one call in flight; a second submit while pending changes nothing; when
  the call resolves the component shows success without any toast; when it is rejected
  the mutation is in the error state and exactly one toast carries the reason.
\<close>

theorem attempt_from_idle:
  assumes "resolver v = None"
  shows "mutation (step resolver init_card (Submit v)) = StatusPending \<and>
    calls (step resolver init_card (Submit v)) = [v] \<and>
    step resolver (step resolver init_card (Submit v)) (Submit w) =
      step resolver init_card (Submit v) \<and>
    run resolver init_card [Submit v, Resolved] =
      init_card\<lparr>mutation := StatusSuccess, calls := [v], isSuccess := True\<rparr> \<and>
    run resolver init_card [Submit v, Rejected e] =
      init_card\<lparr>mutation := StatusError e, calls := [v], toasts := [error_toast e]\<rparr>"
  using assms
  by (simp add: init_card_def can_submit_iff isPending_def handleSubmit_def onSubmit_def
      mutate_def resolved_def rejected_def onSuccess_def onError_def)

theorem attempt_from_idle_witness:
  "sample_resolver ''user@example.com'' = None \<and>
   render (run sample_resolver init_card [Submit ''user@example.com'', Resolved]) = SuccessPanel \<and>
   toasts (run sample_resolver init_card [Submit ''user@example.com'', Resolved]) = []"
  using attempt_from_idle [of sample_resolver "''user@example.com''"]
  by (simp add: klede_defs)

text \<open>
  C30 (error). A submit that fails validation is handled inside the form: the field
  message of the resolver is shown under the input, and neither the mutation nor the list
  of calls nor the toasts change.
\<close>

theorem invalid_submit_local:
  assumes "resolver v = Some msg"
  shows "step resolver s (Submit v) =
      (if can_submit s then s\<lparr>errors_email := Some msg\<rparr> else s)"
  using assms by (simp add: handleSubmit_def)

theorem invalid_submit_local_witness:
  "sample_resolver ''not-an-email'' = Some ''Invalid email address'' \<and>
   render (step sample_resolver init_card (Submit ''not-an-email'')) =
     Form \<lparr>input_disabled = False, input_border = ''border-red-500'',
           field_message = Some ''Invalid email address'', button_disabled = False,
           button_shows = JoinWaitlist\<rparr> \<and>
   calls (step sample_resolver init_card (Submit ''not-an-email'')) = []"
  using invalid_submit_local [of sample_resolver "''not-an-email''" "''Invalid email address''"
      init_card]
  by (simp add: klede_defs)

text \<open>
  C29 (functional). A failed attempt can be retried: from the error state the form is
  enabled again, and a valid submit starts a new call and makes the mutation pending.
\<close>

theorem retry_after_failure:
  assumes "reachable resolver s" and "mutation s = StatusError e" and "resolver v = None"
  shows "can_submit s \<and> mutation (step resolver s (Submit v)) = StatusPending \<and>
    calls (step resolver s (Submit v)) = calls s @ [v] \<and>
    inflight (step resolver s (Submit v)) = 1"
proof -
  from assms(1) have "card_inv resolver s" by (rule reachable_card_inv)
  with assms(2) have "can_submit s" and "inflight s = 0"
    by (simp_all add: card_inv_def can_submit_iff isPending_def)
  with assms(3) show ?thesis by (simp add: step_Submit_valid)
qed

theorem retry_after_failure_witness:
  "mutation (run sample_resolver init_card [Submit ''a@b.c'', Rejected (TypeError ''Failed to fetch'')])
     = StatusError (TypeError ''Failed to fetch'') \<and>
   calls (run sample_resolver init_card
     [Submit ''a@b.c'', Rejected (TypeError ''Failed to fetch''), Submit ''a@b.c'']) =
     [''a@b.c'', ''a@b.c'']"
  using retry_after_failure
    [OF reachable_sample [of "[Submit ''a@b.c'', Rejected (TypeError ''Failed to fetch'')]"],
      of "TypeError ''Failed to fetch''" "''a@b.c''"]
  by (simp add: klede_defs)

text \<open>
  C32 (functional). What is rendered in a reachable state: the success panel exactly when
  the mutation has succeeded; otherwise the form, whose input and submit button are
  disabled, and whose button shows the loading dots, exactly while a call is in flight.
\<close>

theorem render_reachable:
  assumes "reachable resolver s"
  shows "render s =
    (if mutation s = StatusSuccess then SuccessPanel
     else Form \<lparr>input_disabled = (inflight s = 1),
                input_border = (if errors_email s = None then ''border-gray-300''
                                else ''border-red-500''),
                field_message = errors_email s,
                button_disabled = (inflight s = 1),
                button_shows = (if inflight s = 1 then LoadingDots else JoinWaitlist)\<rparr>)"
proof -
  from assms have "card_inv resolver s" by (rule reachable_card_inv)
  then show ?thesis by (auto simp: card_inv_def render_def)
qed

theorem render_reachable_witness:
  "render (run sample_resolver init_card [Submit ''a@b.c'']) =
     Form \<lparr>input_disabled = True, input_border = ''border-gray-300'', field_message = None,
           button_disabled = True, button_shows = LoadingDots\<rparr>"
  using render_reachable [OF reachable_sample [of "[Submit ''a@b.c'']"]]
  by (simp add: klede_defs)


section \<open>The field of the form\<close>

lemma input_enabled_iff [simp]: "input_enabled s = can_submit s"
  by (simp add: input_enabled_def can_submit_def render_def)

lemma page_step_widget:
  "widget (page_step resolver g e) = widget g \<or>
   (\<exists>e'. widget (page_step resolver g e) = step resolver (widget g) e')"
  by (cases e) auto

lemma page_inv_step:
  assumes "page_inv resolver g"
  shows "page_inv resolver (page_step resolver g e)"
proof -
  from assms have inv: "card_inv resolver (widget g)" and r: "reachable resolver (widget g)"
    by (simp_all add: page_inv_def reachable_card_inv)
  have reach: "reachable resolver (widget (page_step resolver g e))"
    using page_step_widget [of resolver g e] r by (auto intro: reachable.stepped)
  show ?thesis
  proof (cases e)
    case (Change v)
    with assms show ?thesis by (simp add: page_inv_def)
  next
    case SubmitForm
    with assms inv reach show ?thesis
      by (cases "can_submit (widget g)"; cases "resolver (email_field g)")
        (auto simp: page_inv_def can_submit_iff isPending_def)
  next
    case MutationResolved
    with assms inv reach show ?thesis
      by (cases "0 < inflight (widget g)")
        (auto simp: page_inv_def can_submit_iff isPending_def card_inv_def split: if_splits)
  next
    case (MutationRejected err)
    with assms inv reach show ?thesis
      by (cases "0 < inflight (widget g)")
        (auto simp: page_inv_def can_submit_iff isPending_def card_inv_def split: if_splits)
  qed
qed

lemma can_submit_init [simp]: "can_submit init_card"
  by (simp add: can_submit_iff init_card_def isPending_def)

lemma page_reachable_inv: "page_reachable resolver g \<Longrightarrow> page_inv resolver g"
proof (induction rule: page_reachable.induct)
  case page_mounted
  show ?case by (simp add: page_inv_def init_page_def reachable.mounted)
next
  case (page_stepped g e)
  then show ?case by (simp add: page_inv_step)
qed

text \<open>
  C31 (invariant). While the input is disabled, that is while a call is pending and after
  a success, the field shows the address that was handed to the mutation function last:
  the address in flight cannot be edited, and the address on the list is the one typed.
\<close>

theorem field_is_sent_address:
  assumes "page_reachable resolver g" and "\<not> can_submit (widget g)"
  shows "reachable resolver (widget g) \<and> calls (widget g) \<noteq> [] \<and>
    last (calls (widget g)) = email_field g"
  using page_reachable_inv [OF assms(1)] assms(2) by (simp add: page_inv_def)

theorem field_is_sent_address_witness:
  "last (calls (widget (page_step sample_resolver
      (page_step sample_resolver
        (page_step sample_resolver
          (page_step sample_resolver init_page (Change ''a@b.c'')) SubmitForm)
        (Change ''x@y.z''))
      SubmitForm))) = ''a@b.c''"
  using field_is_sent_address
    [of sample_resolver
        "page_step sample_resolver
          (page_step sample_resolver
            (page_step sample_resolver
              (page_step sample_resolver init_page (Change ''a@b.c'')) SubmitForm)
            (Change ''x@y.z''))
          SubmitForm"]
    page_reachable.intros
  by (simp add: klede_defs)

end
