(* ===== verification/CacheStore.thy ===== *)
theory CacheStore
  imports RequestExecutor
begin

text \<open>
  The query cache that \<^verbatim>\<open>client/src/lib/queryClient.ts\<close> constructs (lines 92 to 105).

  \<^item> The sources contain the options of the cache and not the cache: \<open>queryClient\<close> is the
    object of lines 92 to 105, field by field, with \<^verbatim>\<open>false\<close> of \<^verbatim>\<open>refetchInterval\<close> as
    \<open>None\<close>, \<^verbatim>\<open>Infinity\<close> as \<open>\<infinity>\<close> and \<^verbatim>\<open>retry\<close> as the option it is, a flag or a count.
    The query function is \<open>getQueryFn\<close> with the policy \<open>Throw\<close>, over the platform.
  \<^item> The cache itself belongs to the query library. It is modelled from the contract the
    specification gives for it (a keyed store of the last successful value, reads that
    share one fetch in flight, invalidation on command only) together with the meaning
    the library gives to each of the five options, so that every option the sources set
    is a parameter of the model and what the repository's values imply is a theorem.
    A \<open>store\<close> holds the entries, the fetches in flight with the number of failed
    attempts, the history of the calls of the query function, and the clock.
    \<open>cache_step\<close> dispatches one event: a read (\<open>getOrFetch\<close>), the settling of a fetch
    (\<open>settle\<close>), an invalidation (\<open>invalidate\<close>), the passing of time, a focus of the
    window (\<open>onFocus\<close>), the firing of an interval timer (\<open>onInterval\<close>). \<open>cached\<close> are the
    stores reached from the empty one and \<open>store_inv\<close> is their invariant.
  \<^item> \<open>read_via\<close> is one read together with the settling of the fetch it starts, with the
    query function of the options; it ties the cache to the request executor.
  \<^item> \<open>retryer\<close> runs one operation under a retry option and \<open>runMutation\<close> is the write
    path over it. The option of the library admits \<^verbatim>\<open>retry: true\<close>, under which an
    operation that fails is attempted without end, so \<open>retryer\<close> is a partial function
    into \<open>option\<close>; that it returns under the option the repository sets, after one
    attempt, is the theorem \<open>runMutation_single_attempt\<close>. An operation is one value of
    effects and outcome, so the model tells how many attempts an option allows and not
    how their outcomes may differ.
  \<^item> \<open>cache_spec_step\<close> is the contract: a map of cached values, a set of pending keys and
    the requests made. \<open>abs_store\<close> maps a store to it, and \<open>cache_forever\<close> names the
    values of the options under which the cache implements it. \<open>owed\<close> counts the
    requests of a key that the contract has made or may make without a new reason;
    \<open>spends\<close> marks the events that give such a reason.
\<close>

section \<open>The options of lines 92 to 105\<close>

datatype retry_option = RetryBool bool | RetryCount nat

record ('d, 'v) query_options =
  queryFn :: "string list \<Rightarrow> ('d, 'v) io"
  refetchInterval :: "nat option"
  refetchOnWindowFocus :: bool
  staleTime :: enat
  retry :: retry_option

record mutation_options =
  mutation_retry :: retry_option

record ('d, 'v) default_options =
  queries :: "('d, 'v) query_options"
  mutations :: mutation_options

definition queryClient :: "('d, 'j, 'z) platform_scheme \<Rightarrow> ('d, 'j option) default_options" where
  "queryClient p =
     \<lparr>queries =
        \<lparr>queryFn = getQueryFn p Throw,
         refetchInterval = None,
         refetchOnWindowFocus = False,
         staleTime = \<infinity>,
         retry = RetryBool False\<rparr>,
      mutations =
        \<lparr>mutation_retry = RetryBool False\<rparr>\<rparr>"

section \<open>The store\<close>

type_synonym queryKey = "string list"

record 'v entry =
  data :: 'v
  dataUpdatedAt :: nat
  isInvalidated :: bool

record 'v store =
  entries :: "queryKey \<rightharpoonup> 'v entry"
  fetching :: "queryKey \<rightharpoonup> nat"
  fetches :: "queryKey list"
  now :: nat

definition empty_store :: "'v store" where
  "empty_store = \<lparr>entries = Map.empty, fetching = Map.empty, fetches = [], now = 0\<rparr>"

definition isStale :: "('d, 'v, 'z) query_options_scheme \<Rightarrow> 'v store \<Rightarrow> queryKey \<Rightarrow> bool" where
  "isStale opts s k =
     (case entries s k of
        None \<Rightarrow> True
      | Some e \<Rightarrow> isInvalidated e \<or> enat (dataUpdatedAt e) + staleTime opts \<le> enat (now s))"

definition served :: "('d, 'v, 'z) query_options_scheme \<Rightarrow> 'v store \<Rightarrow> queryKey \<Rightarrow> 'v option" where
  "served opts s k = (if isStale opts s k then None else map_option data (entries s k))"

definition shouldRetry :: "retry_option \<Rightarrow> nat \<Rightarrow> bool" where
  "shouldRetry r failureCount =
     (case r of RetryBool b \<Rightarrow> b | RetryCount n \<Rightarrow> failureCount < n)"

definition start_fetch :: "queryKey \<Rightarrow> 'v store \<Rightarrow> 'v store" where
  "start_fetch k s = s\<lparr>fetching := (fetching s)(k \<mapsto> 0), fetches := fetches s @ [k]\<rparr>"

definition getOrFetch :: "('d, 'v, 'z) query_options_scheme \<Rightarrow> queryKey \<Rightarrow> 'v store \<Rightarrow> 'v store" where
  "getOrFetch opts k s =
     (if \<not> isStale opts s k then s
      else if fetching s k \<noteq> None then s
      else start_fetch k s)"

definition settle ::
    "('d, 'v, 'z) query_options_scheme \<Rightarrow> queryKey \<Rightarrow> error + 'v \<Rightarrow> 'v store \<Rightarrow> 'v store" where
  "settle opts k r s =
     (case fetching s k of
        None \<Rightarrow> s
      | Some failureCount \<Rightarrow>
         (case r of
            Inr v \<Rightarrow>
              s\<lparr>entries := (entries s)(k \<mapsto> \<lparr>data = v, dataUpdatedAt = now s, isInvalidated = False\<rparr>),
                fetching := (fetching s)(k := None)\<rparr>
          | Inl e \<Rightarrow>
              if shouldRetry (retry opts) failureCount
              then s\<lparr>fetching := (fetching s)(k \<mapsto> Suc failureCount), fetches := fetches s @ [k]\<rparr>
              else s\<lparr>fetching := (fetching s)(k := None)\<rparr>))"

definition invalidate :: "queryKey \<Rightarrow> 'v store \<Rightarrow> 'v store" where
  "invalidate k s =
     (case entries s k of
        None \<Rightarrow> s
      | Some e \<Rightarrow> s\<lparr>entries := (entries s)(k \<mapsto> e\<lparr>isInvalidated := True\<rparr>)\<rparr>)"

definition onFocus :: "('d, 'v, 'z) query_options_scheme \<Rightarrow> queryKey \<Rightarrow> 'v store \<Rightarrow> 'v store" where
  "onFocus opts k s =
     (if refetchOnWindowFocus opts \<and> isStale opts s k \<and> fetching s k = None
      then start_fetch k s else s)"

definition onInterval :: "('d, 'v, 'z) query_options_scheme \<Rightarrow> queryKey \<Rightarrow> 'v store \<Rightarrow> 'v store" where
  "onInterval opts k s =
     (if refetchInterval opts \<noteq> None \<and> fetching s k = None then start_fetch k s else s)"

datatype 'v cache_event =
    Read queryKey
  | Settle queryKey "error + 'v"
  | Invalidate queryKey
  | Tick nat
  | Focus queryKey
  | Interval queryKey

fun cache_step :: "('d, 'v, 'z) query_options_scheme \<Rightarrow> 'v store \<Rightarrow> 'v cache_event \<Rightarrow> 'v store" where
  "cache_step opts s (Read k) = getOrFetch opts k s"
| "cache_step opts s (Settle k r) = settle opts k r s"
| "cache_step opts s (Invalidate k) = invalidate k s"
| "cache_step opts s (Tick n) = s\<lparr>now := now s + n\<rparr>"
| "cache_step opts s (Focus k) = onFocus opts k s"
| "cache_step opts s (Interval k) = onInterval opts k s"

definition cache_run ::
    "('d, 'v, 'z) query_options_scheme \<Rightarrow> 'v store \<Rightarrow> 'v cache_event list \<Rightarrow> 'v store" where
  "cache_run opts = foldl (cache_step opts)"

inductive cached :: "('d, 'v, 'z) query_options_scheme \<Rightarrow> 'v store \<Rightarrow> bool"
  for opts :: "('d, 'v, 'z) query_options_scheme" where
  created: "cached opts empty_store"
| stepped: "cached opts s \<Longrightarrow> cached opts (cache_step opts s e)"

definition read_via ::
    "('d, 'v, 'z) query_options_scheme \<Rightarrow> 'v store \<Rightarrow> queryKey \<Rightarrow> 'd effect list \<times> 'v store" where
  "read_via opts s k =
     (let s1 = cache_step opts s (Read k) in
      if length (fetches s) < length (fetches s1)
      then (effects (queryFn opts k), cache_step opts s1 (Settle k (outcome (queryFn opts k))))
      else ([], s1))"

section \<open>One operation under a retry option\<close>

partial_function (option) retryer ::
    "retry_option \<Rightarrow> nat \<Rightarrow> ('d, 'a) io \<Rightarrow> ('d, 'a) io option" where
  "retryer r failureCount m =
     (case outcome m of
        Inr a \<Rightarrow> Some m
      | Inl e \<Rightarrow>
          if shouldRetry r failureCount
          then Option.bind (retryer r (Suc failureCount) m) (\<lambda>m'. Some (effects m @ effects m', outcome m'))
          else Some m)"

definition runMutation :: "mutation_options \<Rightarrow> ('d, 'a) io \<Rightarrow> 'v store \<Rightarrow> (('d, 'a) io \<times> 'v store) option" where
  "runMutation mopts m s = map_option (\<lambda>m'. (m', s)) (retryer (mutation_retry mopts) 0 m)"

section \<open>The contract\<close>

record 'v cache_spec =
  values_of :: "queryKey \<rightharpoonup> 'v"
  pending :: "queryKey set"
  requests :: "queryKey list"

definition empty_spec :: "'v cache_spec" where
  "empty_spec = \<lparr>values_of = Map.empty, pending = {}, requests = []\<rparr>"

fun cache_spec_step :: "'v cache_spec \<Rightarrow> 'v cache_event \<Rightarrow> 'v cache_spec" where
  "cache_spec_step c (Read k) =
     (if values_of c k = None \<and> k \<notin> pending c
      then c\<lparr>pending := insert k (pending c), requests := requests c @ [k]\<rparr> else c)"
| "cache_spec_step c (Settle k (Inr v)) =
     (if k \<in> pending c then c\<lparr>values_of := (values_of c)(k \<mapsto> v), pending := pending c - {k}\<rparr> else c)"
| "cache_spec_step c (Settle k (Inl e)) = c\<lparr>pending := pending c - {k}\<rparr>"
| "cache_spec_step c (Invalidate k) = c\<lparr>values_of := (values_of c)(k := None)\<rparr>"
| "cache_spec_step c (Tick n) = c"
| "cache_spec_step c (Focus k) = c"
| "cache_spec_step c (Interval k) = c"

definition abs_store :: "'v store \<Rightarrow> 'v cache_spec" where
  "abs_store s =
     \<lparr>values_of = (\<lambda>k. case entries s k of
                         None \<Rightarrow> None
                       | Some e \<Rightarrow> if isInvalidated e then None else Some (data e)),
      pending = dom (fetching s),
      requests = fetches s\<rparr>"

fun spends :: "queryKey \<Rightarrow> 'v cache_event \<Rightarrow> bool" where
  "spends k (Invalidate k') = (k' = k)"
| "spends k (Settle k' (Inl e)) = (k' = k)"
| "spends k _ = False"

fun settles :: "queryKey \<Rightarrow> 'v cache_event \<Rightarrow> bool" where
  "settles k (Settle k' r) = (k' = k)"
| "settles k _ = False"

definition owed :: "'v cache_spec \<Rightarrow> queryKey \<Rightarrow> nat" where
  "owed c k = count_list (requests c) k + (if values_of c k = None \<and> k \<notin> pending c then 1 else 0)"

definition cache_forever :: "('d, 'v, 'z) query_options_scheme \<Rightarrow> bool" where
  "cache_forever opts \<longleftrightarrow>
     staleTime opts = \<infinity> \<and> retry opts = RetryBool False \<and> refetchInterval opts = None \<and>
     \<not> refetchOnWindowFocus opts"

definition store_inv :: "('d, 'v, 'z) query_options_scheme \<Rightarrow> 'v store \<Rightarrow> bool" where
  "store_inv opts s \<longleftrightarrow>
     (\<forall>k. entries s k \<noteq> None \<or> fetching s k \<noteq> None \<longrightarrow> k \<in> set (fetches s)) \<and>
     (\<forall>k e. entries s k = Some e \<longrightarrow> dataUpdatedAt e \<le> now s) \<and>
     (\<forall>k n. fetching s k = Some (Suc n) \<longrightarrow> shouldRetry (retry opts) n)"

lemmas [klede_defs] = queryClient_def empty_store_def isStale_def served_def shouldRetry_def
  start_fetch_def getOrFetch_def settle_def invalidate_def onFocus_def onInterval_def cache_run_def
  read_via_def runMutation_def empty_spec_def abs_store_def owed_def cache_forever_def

lemmas [klede_splits] = cache_event.splits retry_option.splits

section \<open>The options of the repository\<close>

lemma cache_forever_queryClient [simp]: "cache_forever (queries (queryClient p))"
  by (simp add: cache_forever_def queryClient_def)

lemma isStale_forever:
  assumes "cache_forever opts"
  shows "isStale opts s k \<longleftrightarrow> values_of (abs_store s) k = None"
  using assms by (simp add: isStale_def abs_store_def cache_forever_def split: option.splits)

lemma served_eq_None_iff [simp]: "served opts s k = None \<longleftrightarrow> isStale opts s k"
  by (auto simp: served_def isStale_def split: option.splits)

lemma served_forever:
  assumes "cache_forever opts"
  shows "served opts s k = values_of (abs_store s) k"
  using assms
  by (simp add: served_def isStale_def abs_store_def cache_forever_def split: option.splits)

lemma shouldRetry_simps [simp]:
  "shouldRetry (RetryBool b) n = b"
  "shouldRetry (RetryCount c) n = (n < c)"
  by (simp_all add: shouldRetry_def)

section \<open>Runs\<close>

lemma cache_run_Nil [simp]: "cache_run opts s [] = s"
  and cache_run_Cons [simp]: "cache_run opts s (e # es) = cache_run opts (cache_step opts s e) es"
  and cache_run_append [simp]:
    "cache_run opts s (es @ es') = cache_run opts (cache_run opts s es) es'"
  by (simp_all add: cache_run_def)

lemma cached_run: "cached opts s \<Longrightarrow> cached opts (cache_run opts s es)"
  by (induction es arbitrary: s) (auto intro: cached.intros)

lemma cached_iff_run: "cached opts s \<longleftrightarrow> (\<exists>es. s = cache_run opts empty_store es)"
proof
  assume "cached opts s"
  then show "\<exists>es. s = cache_run opts empty_store es"
  proof induction
    case created
    have "empty_store = cache_run opts empty_store []" by simp
    then show ?case by blast
  next
    case (stepped s e)
    then obtain es where "s = cache_run opts empty_store es" by blast
    then have "cache_step opts s e = cache_run opts empty_store (es @ [e])" by simp
    then show ?case by blast
  qed
qed (auto intro: cached_run cached.created)

section \<open>The cache implements the contract\<close>

lemma abs_store_fields [simp]:
  "pending (abs_store s) = dom (fetching s)"
  "requests (abs_store s) = fetches s"
  by (simp_all add: abs_store_def)

lemma cache_step_refines:
  assumes "cache_forever opts"
  shows "abs_store (cache_step opts s e) = cache_spec_step (abs_store s) e"
proof (cases e)
  case (Read k)
  with assms show ?thesis
    by (auto simp: getOrFetch_def start_fetch_def isStale_forever abs_store_def)
next
  case (Settle k r)
  with assms show ?thesis
    by (cases r; cases "fetching s k")
      (auto simp: settle_def abs_store_def cache_forever_def fun_eq_iff)
next
  case (Invalidate k)
  then show ?thesis
    by (auto simp: invalidate_def abs_store_def fun_eq_iff split: option.splits)
next
  case (Tick n)
  then show ?thesis by (simp add: abs_store_def)
next
  case (Focus k)
  with assms show ?thesis by (simp add: onFocus_def cache_forever_def)
next
  case (Interval k)
  with assms show ?thesis by (simp add: onInterval_def cache_forever_def)
qed

lemma abs_store_run:
  assumes "cache_forever opts"
  shows "abs_store (cache_run opts s es) = foldl cache_spec_step (abs_store s) es"
  using assms by (induction es arbitrary: s) (simp_all add: cache_step_refines)

lemma abs_store_empty [simp]: "abs_store empty_store = empty_spec"
  by (simp add: abs_store_def empty_store_def empty_spec_def)

lemma forever_run:
  assumes "cache_forever opts"
  shows "served opts (cache_run opts s es) k = values_of (foldl cache_spec_step (abs_store s) es) k"
    and "fetches (cache_run opts s es) = requests (foldl cache_spec_step (abs_store s) es)"
    and "dom (fetching (cache_run opts s es)) = pending (foldl cache_spec_step (abs_store s) es)"
  using abs_store_run [OF assms, of s es, symmetric] by (simp_all add: served_forever [OF assms])

section \<open>What the contract implies\<close>

lemma owed_step: "owed (cache_spec_step c e) k \<le> owed c k + (if spends k e then 1 else 0)"
proof (cases e)
  case (Settle k' r)
  then show ?thesis by (cases r) (auto simp: owed_def)
qed (auto simp: owed_def)

lemma owed_run:
  "owed (foldl cache_spec_step c es) k \<le> owed c k + length (filter (spends k) es)"
proof (induction es arbitrary: c)
  case (Cons e es)
  have "owed (foldl cache_spec_step (cache_spec_step c e) es) k
      \<le> owed (cache_spec_step c e) k + length (filter (spends k) es)"
    by (rule Cons.IH)
  also have "\<dots> \<le> owed c k + (if spends k e then 1 else 0) + length (filter (spends k) es)"
    using owed_step [of c e k] by simp
  finally show ?case by (simp split: if_splits)
qed simp

lemma requests_budget:
  "count_list (requests (foldl cache_spec_step empty_spec es)) k \<le> 1 + length (filter (spends k) es)"
  using owed_run [of empty_spec es k] by (simp add: owed_def empty_spec_def split: if_splits)

lemma kept_step:
  assumes "values_of c k = Some v" and "k \<notin> pending c" and "e \<noteq> Invalidate k"
  shows "values_of (cache_spec_step c e) k = Some v \<and> k \<notin> pending (cache_spec_step c e) \<and>
    count_list (requests (cache_spec_step c e)) k = count_list (requests c) k"
proof (cases e)
  case (Settle k' r)
  with assms show ?thesis by (cases r) auto
qed (use assms in auto)

lemma kept_run:
  assumes "values_of c k = Some v" and "k \<notin> pending c" and "\<forall>e\<in>set es. e \<noteq> Invalidate k"
  shows "values_of (foldl cache_spec_step c es) k = Some v \<and>
    k \<notin> pending (foldl cache_spec_step c es) \<and>
    count_list (requests (foldl cache_spec_step c es)) k = count_list (requests c) k"
  using assms
proof (induction es arbitrary: c)
  case (Cons e es)
  from Cons.prems have "e \<noteq> Invalidate k" and rest: "\<forall>e\<in>set es. e \<noteq> Invalidate k" by auto
  with Cons.prems kept_step [of c k v e] Cons.IH [of "cache_spec_step c e", OF _ _ rest]
  show ?case by simp
qed simp

section \<open>A fetch in flight is shared\<close>

lemma fetching_step:
  assumes "fetching s k \<noteq> None" and "\<not> settles k e"
  shows "fetching (cache_step opts s e) k \<noteq> None"
    and "count_list (fetches (cache_step opts s e)) k = count_list (fetches s) k"
  using assms
  by (cases e; auto simp: getOrFetch_def start_fetch_def settle_def invalidate_def onFocus_def
      onInterval_def split: option.splits sum.splits)+

lemma fetching_run:
  assumes "fetching s k \<noteq> None" and "\<forall>e\<in>set es. \<not> settles k e"
  shows "fetching (cache_run opts s es) k \<noteq> None \<and>
    count_list (fetches (cache_run opts s es)) k = count_list (fetches s) k"
  using assms
proof (induction es arbitrary: s)
  case (Cons e es)
  then show ?case using fetching_step [of s k e opts] by simp
qed simp

lemma fetches_Read:
  "fetches (getOrFetch opts k s) =
     (if isStale opts s k \<and> fetching s k = None then fetches s @ [k] else fetches s)"
  and fetching_Read:
  "fetching (getOrFetch opts k s) =
     (if isStale opts s k \<and> fetching s k = None then (fetching s)(k \<mapsto> 0) else fetching s)"
  and entries_Read [simp]: "entries (getOrFetch opts k s) = entries s"
  by (simp_all add: getOrFetch_def start_fetch_def)

section \<open>The invariant of the store\<close>

lemma store_inv_empty: "store_inv opts empty_store"
  by (simp add: store_inv_def empty_store_def)

lemma store_inv_step:
  assumes "store_inv opts s"
  shows "store_inv opts (cache_step opts s e)"
proof (cases e)
  case (Settle k r)
  with assms show ?thesis
    by (cases r; cases "fetching s k") (auto simp: store_inv_def settle_def)
next
  case (Tick n)
  with assms show ?thesis by (fastforce simp: store_inv_def)
qed (use assms in \<open>auto simp: store_inv_def getOrFetch_def start_fetch_def invalidate_def onFocus_def
      onInterval_def split: option.splits\<close>)

lemma cached_store_inv: "cached opts s \<Longrightarrow> store_inv opts s"
  by (induction rule: cached.induct) (simp_all add: store_inv_empty store_inv_step)

section \<open>Retrying\<close>

lemma retryer_success: "outcome m = Inr a \<Longrightarrow> retryer r n m = Some m"
  by (subst retryer.simps) simp

lemma retryer_exhausted: "\<not> shouldRetry r n \<Longrightarrow> retryer r n m = Some m"
  by (subst retryer.simps) (simp split: sum.splits)

lemma retryer_no_retry [simp]: "retryer (RetryBool False) n m = Some m"
  by (simp add: retryer_exhausted)

section \<open>One read and the settling of its fetch\<close>

lemma read_via_hit:
  assumes "\<not> isStale opts s k"
  shows "read_via opts s k = ([], s)"
  using assms by (simp add: read_via_def getOrFetch_def)

lemma read_via_miss:
  assumes "isStale opts s k" and "fetching s k = None" and "\<not> shouldRetry (retry opts) 0"
  shows "read_via opts s k =
    (effects (queryFn opts k),
     case outcome (queryFn opts k) of
       Inr v \<Rightarrow> s\<lparr>entries := (entries s)(k \<mapsto> \<lparr>data = v, dataUpdatedAt = now s, isInvalidated = False\<rparr>),
                  fetches := fetches s @ [k]\<rparr>
     | Inl e \<Rightarrow> s\<lparr>fetches := fetches s @ [k]\<rparr>)"
  using assms
  by (simp add: read_via_def getOrFetch_def start_fetch_def settle_def fun_upd_idem
      split: sum.splits)

lemma read_via_empty:
  assumes "cache_forever opts"
  shows "read_via opts empty_store k =
    (effects (queryFn opts k),
     case outcome (queryFn opts k) of
       Inr v \<Rightarrow> \<lparr>entries = [k \<mapsto> \<lparr>data = v, dataUpdatedAt = 0, isInvalidated = False\<rparr>],
                  fetching = Map.empty, fetches = [k], now = 0\<rparr>
     | Inl e \<Rightarrow> \<lparr>entries = Map.empty, fetching = Map.empty, fetches = [k], now = 0\<rparr>)"
  using assms read_via_miss [of opts empty_store k]
  by (simp add: isStale_def empty_store_def cache_forever_def split: sum.splits)

section \<open>Properties of the cache\<close>

text \<open>
  C11 (refinement). Under the options of the repository the cache implements its
  contract: after any sequence of events from the empty store, the valid entries, the keys
  in flight and the calls of the query function are those of the contract, a map of values
  with invalidation on command and no other way to lose a value or to cause a fetch.
\<close>

theorem cache_refines_contract:
  "abs_store (cache_run (queries (queryClient p)) empty_store es) =
     foldl cache_spec_step empty_spec es"
  by (simp add: abs_store_run)

text \<open>
  C13 (bounds). Under the options of the repository a key is fetched at most once, plus
  once for every invalidation of it and for every failed fetch of it, however many reads,
  focus events and timer events occur and however much time passes.
\<close>

theorem fetch_budget:
  "count_list (fetches (cache_run (queries (queryClient p)) empty_store es)) k
     \<le> 1 + length (filter (spends k) es)"
  using requests_budget [of es k] by (simp add: forever_run)

text \<open>
  C14 (safety). Reads of one key share one fetch, under every choice of the options: a
  read of a key that has no valid entry and no fetch in flight starts exactly one fetch,
  and until that fetch settles no event starts another one for the key.
\<close>

theorem concurrent_reads_share_fetch:
  assumes "isStale opts s k" and "fetching s k = None" and "\<forall>e\<in>set es. \<not> settles k e"
  shows "count_list (fetches (cache_run opts s (Read k # es))) k = Suc (count_list (fetches s) k)"
  using assms fetching_run [of "cache_step opts s (Read k)" k es opts]
  by (simp add: fetches_Read fetching_Read)

theorem concurrent_reads_share_fetch_witness:
  "fetches (cache_run (queries (queryClient (sample_platform True (Inl (Error [])))))
      empty_store [Read [''/api/waitlist''], Read [''/api/waitlist''], Tick 5,
        Focus [''/api/waitlist''], Read [''/api/waitlist'']]) = [[''/api/waitlist'']]"
  using concurrent_reads_share_fetch
    [of "queries (queryClient (sample_platform True (Inl (Error []))))" empty_store
        "[''/api/waitlist'']"
        "[Read [''/api/waitlist''], Tick 5, Focus [''/api/waitlist''], Read [''/api/waitlist'']]"]
  by (simp add: klede_defs)

text \<open>
  C15 (invariant). Under the options of the repository a cached value is served until it
  is invalidated: whatever time passes and whatever else happens, a read of the key
  returns the same value and causes no fetch.
\<close>

theorem served_until_invalidated:
  assumes "served (queries (queryClient p)) s k = Some v" and "fetching s k = None"
    and "\<forall>e\<in>set es. e \<noteq> Invalidate k"
  shows "served (queries (queryClient p)) (cache_run (queries (queryClient p)) s es) k = Some v \<and>
    count_list (fetches (cache_run (queries (queryClient p)) s es)) k = count_list (fetches s) k"
proof -
  from assms(1,2) have "values_of (abs_store s) k = Some v" and "k \<notin> pending (abs_store s)"
    by (simp_all add: served_forever domIff)
  from kept_run [OF this assms(3)] show ?thesis
    by (simp add: forever_run)
qed

theorem served_until_invalidated_witness:
  "served (queries (queryClient (sample_platform True (Inl (Error [])))))
     (cache_run (queries (queryClient (sample_platform True (Inl (Error [])))))
        empty_store
        [Read [''/api/user''], Settle [''/api/user''] (Inr (Some ''ada'')), Tick 1000000,
         Focus [''/api/user''], Interval [''/api/user''], Read [''/api/user'']])
     [''/api/user''] = Some (Some ''ada'')"
  using served_until_invalidated
    [of "sample_platform True (Inl (Error []))"
        "cache_run (queries (queryClient (sample_platform True (Inl (Error [])))))
           empty_store [Read [''/api/user''], Settle [''/api/user''] (Inr (Some ''ada''))]"
        "[''/api/user'']" "Some ''ada''"
        "[Tick 1000000, Focus [''/api/user''], Interval [''/api/user''], Read [''/api/user'']]"]
  by (simp add: klede_defs)

text \<open>
  C12 (error). Under the options of the repository a failed read is not retried and
  leaves no entry: the fetch is over, no further call of the query function was made,
  and the next read of the key fetches again.
\<close>

theorem failed_read_not_cached:
  assumes "entries s k = None" and "fetching s k \<noteq> None"
  shows "entries (cache_step (queries (queryClient p)) s (Settle k (Inl e))) k = None \<and>
    fetching (cache_step (queries (queryClient p)) s (Settle k (Inl e))) k = None \<and>
    fetches (cache_step (queries (queryClient p)) s (Settle k (Inl e))) = fetches s \<and>
    fetches (cache_run (queries (queryClient p)) s [Settle k (Inl e), Read k]) = fetches s @ [k]"
  using assms
  by (auto simp: settle_def queryClient_def getOrFetch_def isStale_def start_fetch_def)

theorem failed_read_not_cached_witness:
  "fetches (cache_run (queries (queryClient (sample_platform True (Inl (Error [])))))
      empty_store
      [Read [''/api/user''], Settle [''/api/user''] (Inl (Error ''500: db down'')),
       Read [''/api/user'']]) = [[''/api/user''], [''/api/user'']]"
  using failed_read_not_cached
    [of "cache_step (queries (queryClient (sample_platform True (Inl (Error [])))))
           empty_store (Read [''/api/user''])"
        "[''/api/user'']" "sample_platform True (Inl (Error []))" "Error ''500: db down''"]
  by (simp add: klede_defs)

text \<open>
  C20 (invariant). In every state that the cache reaches, under every choice of the
  options, each cached key and each key in flight was fetched, no entry is dated after
  the clock, and a fetch in flight has failed before only if the retry option allowed
  another attempt.
\<close>

theorem store_wellformed:
  assumes "cached opts s"
  shows "dom (entries s) \<union> dom (fetching s) \<subseteq> set (fetches s) \<and>
    (\<forall>k e. entries s k = Some e \<longrightarrow> dataUpdatedAt e \<le> now s) \<and>
    (\<forall>k n. fetching s k = Some (Suc n) \<longrightarrow> shouldRetry (retry opts) n)"
  using cached_store_inv [OF assms] by (auto simp: store_inv_def)

theorem store_wellformed_witness:
  "dom (entries (cache_run (queries (queryClient (sample_platform True (Inl (Error [])))))
      empty_store [Read [''/api/user''], Settle [''/api/user''] (Inr (Some ''ada''))]))
    \<subseteq> {[''/api/user'']}"
  using store_wellformed
    [of "queries (queryClient (sample_platform True (Inl (Error []))))"
        "cache_run (queries (queryClient (sample_platform True (Inl (Error [])))))
           empty_store [Read [''/api/user''], Settle [''/api/user''] (Inr (Some ''ada''))]"]
    cached_run [OF cached.created]
  by (simp add: klede_defs)

text \<open>
  C19 (functional). The write path under the options of the repository: a mutation is
  one attempt of its operation, with the effects and the outcome of that attempt, and the
  store is as before; nothing is cached and nothing is retried.
\<close>

theorem runMutation_single_attempt:
  "runMutation (mutations (queryClient p)) m s = Some (m, s)"
  by (simp add: runMutation_def queryClient_def)

end
