(* ===== verification/Spec2Isabelle.thy ===== *)
theory Spec2Isabelle
  imports RequestExecutor SubmissionWorkflow CacheStore
begin

text \<open>
  \<^bold>\<open>A verification development for the klede waitlist client.\<close>

  The repository is the client-side data layer of a single-page waitlist form. Its
  sources are two files:

  \<^item> \<^verbatim>\<open>src/client/src/lib/queryClient.ts\<close>: \<^verbatim>\<open>getApiUrl\<close> (endpoint resolution),
    \<^verbatim>\<open>throwIfResNotOk\<close>, \<^verbatim>\<open>apiRequest\<close> and \<^verbatim>\<open>getQueryFn\<close> (request execution and failure
    normalisation), and the configuration of the query cache \<^verbatim>\<open>queryClient\<close>;
  \<^item> \<^verbatim>\<open>src/client/src/components/WaitlistCard.tsx\<close>: the form component, which validates an
    email address, starts a mutation, and shows a success panel or an error toast.

  Data flows from the form through the mutation to \<^verbatim>\<open>apiRequest\<close>, which resolves the
  endpoint with \<^verbatim>\<open>getApiUrl\<close>, calls \<^verbatim>\<open>fetch\<close> once, and turns every response outside
  200 to 299 into a thrown \<^verbatim>\<open>Error\<close> whose message the component shows.

  \<^bold>\<open>Theories.\<close>

  \<^item> \<open>Klede_Prelude\<close>: strings of the JavaScript runtime (\<open>js_or\<close>, \<open>decimal\<close>), the failure
    type \<open>error\<close>, console lines, and the simp collections \<open>klede_defs\<close>, \<open>klede_splits\<close>.
  \<^item> \<open>EndpointResolver\<close>: \<open>runtime_env\<close>, \<open>normalizedPath\<close>, \<open>hosted\<close>, \<open>getApiUrl\<close>,
    \<open>getApiUrl_console\<close> model \<^verbatim>\<open>getApiUrl\<close>; \<open>resolves\<close> is its contract as an inductive
    relation. The lemmas give the value on each of the three branches, show that the
    function computes exactly the relation, and prove the testable properties of the
    resolver (normalisation, hosted rewriting, direct mode, injectivity within a kind).
  \<^item> \<open>RequestExecutor\<close>: an asynchronous function is a pair of the effects it causes, in
    order (console lines and calls of \<^verbatim>\<open>fetch\<close>), and its outcome, \<open>Inl\<close> for a rejection;
    \<open>io_bind\<close> is \<^verbatim>\<open>await\<close> in sequence and \<open>io_catch\<close> is \<^verbatim>\<open>try/catch\<close>. The record
    \<open>platform\<close> extends \<open>runtime_env\<close> by what the sources call and do not define: the
    network (\<open>fetch\<close>), the truthiness of a payload, \<^verbatim>\<open>JSON.stringify\<close> and the parsing of
    a response body. \<open>errorMessage\<close> and \<open>throwIfResNotOk\<close> model \<^verbatim>\<open>throwIfResNotOk\<close>,
    \<open>payload\<close>, \<open>request_init\<close> and \<open>apiRequest\<close> model \<^verbatim>\<open>apiRequest\<close>, \<open>query_init\<close> and
    \<open>getQueryFn\<close> model \<^verbatim>\<open>getQueryFn\<close>. The lemmas \<open>outcome_\<close>\<open>f\<close> and \<open>effects_\<close>\<open>f\<close> give
    outcome and trace of each function on every branch; the properties are derived from
    them: a response is returned exactly for a status in 200 to 299, every other one is
    the failure \<^verbatim>\<open><status>: <text>\<close>, which can be read back from the message, there
    is exactly one network call per request, and a 401 is a null result or a failure
    according to the policy.
  \<^item> \<open>SubmissionWorkflow\<close>: the state of \<^verbatim>\<open>WaitlistCard\<close> is the record \<open>card\<close> (the flag
    \<^verbatim>\<open>isSuccess\<close>, the field error of the form, the status of the mutation, the toasts
    shown, and, as history, the values handed to the mutation function and the number of
    calls in flight). \<open>onSubmit\<close>, \<open>onSuccess\<close>, \<open>onError\<close> are the callbacks of the source;
    \<open>render\<close> is what the markup shows as far as it depends on the state, and \<open>can_submit\<close>
    reads the guard of a submission off it (the button is disabled while the mutation is
    pending, and the form is absent after a success). \<open>step\<close> dispatches one event, a
    submit or the settling of the call, and \<open>reachable\<close> are the states of a mounted
    component. The invariant \<open>card_inv\<close> is preserved by every step; from it follow that
    at most one call is in flight, that only validated values reach the mutation function,
    and that a success is final. \<open>page\<close> adds the field of the form, \<open>page_step\<close> the
    typing into it; while the input is disabled the field holds the address sent last. \<open>workflow\<close> is the four-state machine of the
    specification and \<open>step\<close> refines it through \<open>abs_state\<close> and \<open>abs_event\<close>. The relation
    \<open>workflow\<close> has no transition out of \<open>Succeeded\<close>: the component removes the form
    after a success, so the transition that the specification draws there cannot be
    taken, and the refinement is proved against the machine without it.
  \<^item> \<open>CacheStore\<close>: \<open>queryClient\<close> is the object of lines 92 to 105 of
    \<^verbatim>\<open>queryClient.ts\<close>, the five options of the queries and the one of the mutations,
    over the records \<open>query_options\<close>, \<open>mutation_options\<close> and \<open>default_options\<close>. The
    sources configure the cache and do not contain it, so the cache is modelled from
    its contract in the specification and from the meaning the query library gives to
    each option: a \<open>store\<close> of entries, fetches in flight, the history of the calls of the
    query function and a clock; \<open>getOrFetch\<close>, \<open>settle\<close>, \<open>invalidate\<close>, \<open>onFocus\<close>,
    \<open>onInterval\<close> and the passing of time, dispatched by \<open>cache_step\<close>; \<open>retryer\<close> and
    \<open>runMutation\<close> for the write path. All of them take the options as a parameter, and
    the theorems say what the values of the repository imply: the cache then implements
    the contract \<open>cache_spec_step\<close> (a map of values and a set of pending keys) through
    \<open>abs_store\<close>, a key is fetched once and again only after an invalidation or a
    failure, a value is served until it is invalidated, a failed read is not retried and
    not cached, and a mutation is one attempt. That reads of one key share the fetch in
    flight and that the store stays well-formed (\<open>store_inv\<close>) hold for all options.
  \<^item> \<open>Spec2Isabelle\<close> (this theory): \<open>addToWaitlist\<close> and \<open>submit_via\<close> connect the form
    to the executor, one submission together with the settling of its call, and
    \<open>read_via\<close> of \<open>CacheStore\<close> connects the cache to \<open>getQueryFn\<close>, one read together
    with the settling of its fetch. The end-to-end scenarios are proved over them.

  \<^bold>\<open>Parameters and fixtures.\<close> The validator of the form (the zod schema) is a parameter
  \<open>resolver\<close>, which returns the message of a rejected value; the network is the field
  \<open>fetch\<close> of the platform. Every theorem holds for all of them. \<open>sample_resolver\<close>,
  \<open>sample_platform\<close> and \<open>sample_response\<close> are concrete ones, used only to instantiate
  theorems at an input. No definition needs fuel. The recursion of \<open>decimal\<close> is not
  structural and terminates since \<open>n div 10 < n\<close> from 10 on. \<open>retryer\<close> is the one loop
  that need not end (an operation that fails, retried without bound); it is a partial
  function into \<open>option\<close> with \<open>None\<close> for a run that never settles, and the theorem
  \<open>runMutation_single_attempt\<close> shows that under the option of the repository it returns
  after one attempt. An HTTP status and the clock of
  the cache are natural numbers, since the sources do no arithmetic on them that could
  overflow; a stale time is an extended natural number, for \<^verbatim>\<open>Infinity\<close>.

  \<^bold>\<open>Assumptions that cross components.\<close> \<open>step\<close> settles a mutation at its first
  rejection; this is the behaviour under \<^verbatim>\<open>mutations: { retry: false }\<close>, which
  \<open>runMutation_single_attempt\<close> derives from \<open>queryClient\<close>. The component imports
  \<^verbatim>\<open>addToWaitlist\<close> from a module that is not among the sources; \<open>addToWaitlist\<close> here is
  the request the specification describes, a POST of the address through \<open>apiRequest\<close>.
  The sources mount no query: \<open>read_via\<close> is the read path the specification describes,
  with the query function that \<open>queryClient\<close> configures. \<open>submit_via\<close> and \<open>read_via\<close> put
  a call and the settling of its promise into one step, for the scenarios of the
  specification; in the sources the two are separate turns of the event loop, which
  \<open>step\<close> and \<open>cache_step\<close> model as separate events.

  \<^bold>\<open>Simplifications of the model.\<close>
  \<^item> The network is a function of the request: within one model the same request gets the
    same answer. Every theorem holds for every such function.
  \<^item> A submit event is atomic and reaches the handlers only when the rendered button is
    enabled; the asynchronous validation of the resolver and the delay between
    \<^verbatim>\<open>mutate\<close> and the next rendering are not modelled.
  \<^item> \<open>handleSubmit\<close> hands the value of the field to \<open>onSubmit\<close>; the resolver of the
    sources hands on the output of the schema, which is not among the sources.
  \<^item> The result of \<open>getQueryFn\<close> is an option: \<open>None\<close> is the \<^verbatim>\<open>null\<close> of line 85 and
    \<open>Some j\<close> a parsed body, so the model tells the two apart even where the body parses
    to \<^verbatim>\<open>null\<close>, which a caller of the source cannot. The elements of a query key are
    strings.

  \<^bold>\<open>What is not modelled.\<close> The markup and styling of the component, the logo, and the
  libraries the sources only call (React, react-hook-form, zod, TanStack Query, the toast
  hook, the network itself): their observable contract enters the model as parameters.
  A rejection of \<^verbatim>\<open>res.text()\<close> and an exception of \<^verbatim>\<open>JSON.stringify\<close> are left out, and
  so is the re-validation of the field while the user types. Of the query library the
  observers of a query, garbage collection of unused entries and the refetch that an
  invalidation triggers for a mounted query are left out: the sources mount no query.
\<close>

section \<open>The form and the executor together\<close>

definition addToWaitlist ::
    "('d, 'j, 'z) platform_scheme \<Rightarrow> string \<Rightarrow> (string \<Rightarrow> 'd) \<Rightarrow> string \<Rightarrow> ('d, response) io" where
  "addToWaitlist p path encode email = apiRequest p ''POST'' path (Some (encode email))"

definition submit_via ::
    "(string \<Rightarrow> string option) \<Rightarrow> (string \<Rightarrow> ('d, 'r) io) \<Rightarrow> card \<Rightarrow> string \<Rightarrow> 'd effect list \<times> card" where
  "submit_via resolver mutationFn s v =
     (let s1 = step resolver s (Submit v) in
      if length (calls s) < length (calls s1)
      then (effects (mutationFn v), step resolver s1 (settlement (outcome (mutationFn v))))
      else ([], s1))"

lemmas [klede_defs] = addToWaitlist_def submit_via_def

lemma submit_via_valid:
  assumes "can_submit s" and "resolver v = None" and "inflight s = 0"
  shows "submit_via resolver mutationFn s v =
    (effects (mutationFn v),
     case outcome (mutationFn v) of
       Inr _ \<Rightarrow> s\<lparr>errors_email := None, mutation := StatusSuccess, calls := calls s @ [v],
                  isSuccess := True\<rparr>
     | Inl e \<Rightarrow> s\<lparr>errors_email := None, mutation := StatusError e, calls := calls s @ [v],
                  toasts := toasts s @ [error_toast e]\<rparr>)"
  using assms by (simp add: submit_via_def settlement_def split: sum.splits)

lemma submit_via_init:
  assumes "resolver v = None"
  shows "submit_via resolver mutationFn init_card v =
    (effects (mutationFn v),
     case outcome (mutationFn v) of
       Inr _ \<Rightarrow> \<lparr>isSuccess = True, errors_email = None, mutation = StatusSuccess, toasts = [],
                 calls = [v], inflight = 0\<rparr>
     | Inl e \<Rightarrow> \<lparr>isSuccess = False, errors_email = None, mutation = StatusError e,
                 toasts = [error_toast e], calls = [v], inflight = 0\<rparr>)"
proof -
  have "can_submit init_card" and "inflight init_card = 0"
    by (simp_all add: can_submit_iff init_card_def isPending_def)
  with assms have "submit_via resolver mutationFn init_card v =
      (effects (mutationFn v),
       case outcome (mutationFn v) of
         Inr _ \<Rightarrow> init_card\<lparr>errors_email := None, mutation := StatusSuccess,
                    calls := calls init_card @ [v], isSuccess := True\<rparr>
       | Inl e \<Rightarrow> init_card\<lparr>errors_email := None, mutation := StatusError e,
                    calls := calls init_card @ [v],
                    toasts := toasts init_card @ [error_toast e]\<rparr>)"
    by (simp add: submit_via_valid)
  then show ?thesis
    by (simp add: init_card_def split: sum.splits)
qed

text \<open>
  C16 (functional). A valid address and a server that answers with a status in 200 to
  299: the component ends in the success state, shows the success panel and no toast, and
  exactly one request was sent, to the resolved URL of the path.
\<close>

theorem submit_success:
  assumes "resolver v = None"
    and "fetch p (request_init p (getApiUrl p path) ''POST'' (Some (encode v))) = Inr res"
    and "200 \<le> status res" and "status res \<le> 299"
  shows "render (snd (submit_via resolver (addToWaitlist p path encode) init_card v)) = SuccessPanel \<and>
    toasts (snd (submit_via resolver (addToWaitlist p path encode) init_card v)) = [] \<and>
    fetched (fst (submit_via resolver (addToWaitlist p path encode) init_card v)) =
      [request_init p (getApiUrl p path) ''POST'' (Some (encode v))]"
  using assms
  by (simp add: submit_via_init addToWaitlist_def outcome_apiRequest effects_apiRequest ok_def
      render_def split: option.splits)

theorem submit_success_witness:
  "render (snd (submit_via sample_resolver
      (addToWaitlist (sample_platform True (Inr (sample_response 201 ''Created'' ''{}'')))
         ''/api/waitlist'' id) init_card ''user@example.com'')) = SuccessPanel"
  using submit_success [of sample_resolver "''user@example.com''"
      "sample_platform True (Inr (sample_response 201 ''Created'' ''{}''))" "''/api/waitlist''" id
      "sample_response 201 ''Created'' ''{}''"]
  by (simp add: klede_defs)

text \<open>
  C5 (error). A valid address and a server that answers with a status outside 200 to
  299: the component ends in the error state and shows one toast whose description is the
  message of the executor, the status, a colon and the response text. The fallback text is
  never shown for a failure that the server reported.
\<close>

theorem submit_http_failure:
  assumes "resolver v = None"
    and "fetch p (request_init p (getApiUrl p path) ''POST'' (Some (encode v))) = Inr res"
    and "status res < 200 \<or> 299 < status res"
  shows "toasts (snd (submit_via resolver (addToWaitlist p path encode) init_card v)) =
      [\<lparr>title = ''Error'', description = errorMessage res, variant = ''destructive''\<rparr>] \<and>
    mutation (snd (submit_via resolver (addToWaitlist p path encode) init_card v)) =
      StatusError (Error (errorMessage res)) \<and>
    can_submit (snd (submit_via resolver (addToWaitlist p path encode) init_card v))"
  using assms
  by (auto simp: submit_via_init addToWaitlist_def outcome_apiRequest ok_def error_toast_def
      errorMessage_eq can_submit_iff isPending_def)

theorem submit_http_failure_witness:
  "toasts (snd (submit_via sample_resolver
      (addToWaitlist (sample_platform True (Inr (sample_response 500 ''Internal Server Error'' ''db down'')))
         ''/api/waitlist'' id) init_card ''user@example.com'')) =
     [\<lparr>title = ''Error'', description = ''500: db down'', variant = ''destructive''\<rparr>]"
  using submit_http_failure [of sample_resolver "''user@example.com''"
      "sample_platform True (Inr (sample_response 500 ''Internal Server Error'' ''db down''))"
      "''/api/waitlist''" id "sample_response 500 ''Internal Server Error'' ''db down''"]
  by (simp add: klede_defs)

text \<open>
  C33 (error). A valid address and a network that cannot be reached: the error of the
  network is passed through the executor unchanged, and the toast shows its message, or
  the fallback text when the error has no message.
\<close>

theorem submit_transport_failure:
  assumes "resolver v = None"
    and "fetch p (request_init p (getApiUrl p path) ''POST'' (Some (encode v))) = Inl e"
  shows "toasts (snd (submit_via resolver (addToWaitlist p path encode) init_card v)) =
      [\<lparr>title = ''Error'',
        description = (if message e = [] then ''Failed to join waitlist. Please try again.''
                       else message e),
        variant = ''destructive''\<rparr>] \<and>
    mutation (snd (submit_via resolver (addToWaitlist p path encode) init_card v)) = StatusError e"
  using assms
  by (simp add: submit_via_init addToWaitlist_def outcome_apiRequest error_toast_def js_or_def)

theorem submit_transport_failure_witness:
  "toasts (snd (submit_via sample_resolver
      (addToWaitlist (sample_platform True (Inl (TypeError [])))
         ''/api/waitlist'' id) init_card ''user@example.com'')) =
     [\<lparr>title = ''Error'', description = ''Failed to join waitlist. Please try again.'',
       variant = ''destructive''\<rparr>]"
  using submit_transport_failure [of sample_resolver "''user@example.com''"
      "sample_platform True (Inl (TypeError []))" "''/api/waitlist''" id "TypeError []"]
  by (simp add: klede_defs)


section \<open>The cache and the executor together\<close>

lemma cache_forever_on401 [simp]:
  "cache_forever ((queries (queryClient p))\<lparr>queryFn := f\<rparr>)"
  by (simp add: cache_forever_def queryClient_def)

lemma queryFn_queryClient [simp]: "queryFn (queries (queryClient p)) = getQueryFn p Throw"
  by (simp add: queryClient_def)

text \<open>
  C17 (error). A read of a protected resource that the server answers with status 401.
  With the client as the repository configures it (policy throw) the read fails, nothing
  is cached and the next read asks the server again; with the policy returnNull the
  result null is cached and served like any other value.
\<close>

theorem read_unauthorized:
  assumes "fetch p (query_init (getApiUrl p key)) = Inr res" and "status res = 401"
  shows "served (queries (queryClient p))
      (snd (read_via (queries (queryClient p)) empty_store (key # ks))) (key # ks) = None \<and>
    fetches (cache_step (queries (queryClient p))
      (snd (read_via (queries (queryClient p)) empty_store (key # ks))) (Read (key # ks)))
      = [key # ks, key # ks] \<and>
    served ((queries (queryClient p))\<lparr>queryFn := getQueryFn p ReturnNull\<rparr>)
      (snd (read_via ((queries (queryClient p))\<lparr>queryFn := getQueryFn p ReturnNull\<rparr>)
        empty_store (key # ks))) (key # ks) = Some None"
  using assms
  by (simp add: read_via_empty outcome_getQueryFn ok_def served_forever abs_store_def
      getOrFetch_def isStale_def start_fetch_def)

theorem read_unauthorized_witness:
  "served (queries (queryClient (sample_platform True (Inr (sample_response 401 ''Unauthorized'' []))))
      \<lparr>queryFn := getQueryFn (sample_platform True (Inr (sample_response 401 ''Unauthorized'' [])))
         ReturnNull\<rparr>)
     (snd (read_via
        ((queries (queryClient (sample_platform True (Inr (sample_response 401 ''Unauthorized'' [])))))
           \<lparr>queryFn := getQueryFn (sample_platform True (Inr (sample_response 401 ''Unauthorized'' [])))
              ReturnNull\<rparr>)
        empty_store [''/api/user''])) [''/api/user''] = Some None"
  using read_unauthorized
    [of "sample_platform True (Inr (sample_response 401 ''Unauthorized'' []))" "''/api/user''"
        "sample_response 401 ''Unauthorized'' []" "[]"]
  by (simp add: klede_defs)

text \<open>
  C18 (functional). A read that the server answers with a status in 200 to 299 and a
  body that parses: one request is sent, to the resolved URL of the first element of the
  key; the parsed value is cached; a second read of the key returns it from the cache
  without any effect.
\<close>

theorem read_cached_once:
  assumes "fetch p (query_init (getApiUrl p key)) = Inr res"
    and "200 \<le> status res" and "status res \<le> 299" and "json p (body_text res) = Inr j"
  shows "fetched (fst (read_via (queries (queryClient p)) empty_store (key # ks))) =
      [query_init (getApiUrl p key)] \<and>
    served (queries (queryClient p))
      (snd (read_via (queries (queryClient p)) empty_store (key # ks))) (key # ks) = Some (Some j) \<and>
    read_via (queries (queryClient p))
      (snd (read_via (queries (queryClient p)) empty_store (key # ks))) (key # ks) =
      ([], snd (read_via (queries (queryClient p)) empty_store (key # ks)))"
proof -
  let ?opts = "queries (queryClient p)"
  from assms have "\<not> isStale ?opts (snd (read_via ?opts empty_store (key # ks))) (key # ks)"
    by (simp add: read_via_empty outcome_getQueryFn ok_def isStale_forever abs_store_def)
  with assms show ?thesis
    by (simp add: read_via_hit)
      (simp add: read_via_empty outcome_getQueryFn effects_getQueryFn ok_def served_forever
        abs_store_def)
qed

theorem read_cached_once_witness:
  "served (queries (queryClient (sample_platform True (Inr (sample_response 200 ''OK'' ''ada'')))))
     (snd (read_via (queries (queryClient (sample_platform True (Inr (sample_response 200 ''OK'' ''ada'')))))
        empty_store [''/api/user''])) [''/api/user''] = Some (Some ''ada'')"
  using read_cached_once
    [of "sample_platform True (Inr (sample_response 200 ''OK'' ''ada''))" "''/api/user''"
        "sample_response 200 ''OK'' ''ada''" "''ada''" "[]"]
  by (simp add: klede_defs)

end
